theory Spec2Isabelle
  imports Complex_Main "HOL-Library.AList"
begin

section \<open>Python and numpy building blocks\<close>

text \<open>
  The program is \<^verbatim>\<open>src/oect.py\<close>, the class \<^verbatim>\<open>OECT\<close>. Samples (voltages, currents) are
  modelled as real numbers: every float the program reads is taken to be finite, and
  rounding is not modelled. Exceptions are values of \<open>py_error\<close>.
\<close>

datatype py_error = IndexError | ValueError | TypeError | AttributeError | RuntimeError

text \<open>The slice \<^verbatim>\<open>v[a:b]\<close> for non-negative \<^verbatim>\<open>a\<close>, \<^verbatim>\<open>b\<close>; \<^verbatim>\<open>v[:b]\<close> is \<open>take b v\<close>
  and \<^verbatim>\<open>v[a:]\<close> is \<open>drop a v\<close>.\<close>

definition slice :: "nat \<Rightarrow> nat \<Rightarrow> 'a list \<Rightarrow> 'a list" where
  "slice a b v = drop a (take b v)"

text \<open>\<^verbatim>\<open>np.isclose(a, b)\<close> with numpy's defaults \<^verbatim>\<open>rtol=1e-05\<close>, \<^verbatim>\<open>atol=1e-08\<close>:
  \<^verbatim>\<open>|a - b| <= atol + rtol * |b|\<close>.\<close>

definition isclose :: "real \<Rightarrow> real \<Rightarrow> bool" where
  "isclose a b = (\<bar>a - b\<bar> \<le> 1 / 100000000 + 1 / 100000 * \<bar>b\<bar>)"

text \<open>\<^verbatim>\<open>np.allclose(x, y)\<close> on two arrays of the same length (the only way \<^verbatim>\<open>_reverse\<close>
  calls it, see \<open>reverse_windows_same_length\<close>).\<close>

definition allclose :: "real list \<Rightarrow> real list \<Rightarrow> bool" where
  "allclose x y = list_all2 isclose x y"

section \<open>The state of an OECT object\<close>

datatype quadrant_t = QI | QIII

text \<open>A float that numpy arithmetic may have made infinite or NaN (a quotient by a zero slope).\<close>

datatype np_float = Fin real | PInf | NInf | NaN

text \<open>A one-column DataFrame indexed by voltage is its list of rows \<open>(index, value)\<close>. The
  aggregated table \<^verbatim>\<open>self.transfers\<close> is a shared index and named columns, each column
  holding one value per index entry.\<close>

type_synonym series = "(real \<times> real) list"

record frame =
  findex :: "real list"
  fcolumns :: "(string \<times> real list) list"

text \<open>The attributes of \<^verbatim>\<open>self\<close> that the modelled methods read or write. A dict is an
  association list in insertion order. \<open>None\<close> stands for an attribute that is still
  \<^verbatim>\<open>np.nan\<close> / \<^verbatim>\<open>None\<close> or has never been assigned (\<^verbatim>\<open>gm_peaks\<close>, \<^verbatim>\<open>quad\<close>, \<^verbatim>\<open>rev_v\<close>).\<close>

record oect =
  transfer :: "(string \<times> series) list"
  transfers :: frame
  gm_fwd :: "(string \<times> series) list"
  gm_bwd :: "(string \<times> series) list"
  gm_peaks :: "series option"
  peak_gm :: "real list option"
  reverse :: bool
  rev_point :: "nat option"
  rev_v :: "real option"
  opt_Reverse :: bool
  opt_gm_method :: string
  quad :: "quadrant_t option"
  Vt :: "np_float option"
  Vts :: "np_float list option"
  VgVt :: "np_float option"
  VgVts :: "np_float list option"

text \<open>The containers and descriptors as \<^verbatim>\<open>__init__\<close> (lines 143-169) and the defaults of
  \<^verbatim>\<open>set_params\<close> (lines 234-237) leave them, before any file is loaded.\<close>

definition oect_init :: oect where
  "oect_init = \<lparr> transfer = [], transfers = \<lparr> findex = [], fcolumns = [] \<rparr>,
     gm_fwd = [], gm_bwd = [], gm_peaks = None, peak_gm = None,
     reverse = False, rev_point = None, rev_v = None,
     opt_Reverse = True, opt_gm_method = ''sg'',
     quad = None, Vt = None, Vts = None, VgVt = None, VgVts = None \<rparr>"

section \<open>SweepSplitter: \<^verbatim>\<open>_reverse\<close> (lines 334-386)\<close>

text \<open>The two comparison windows of lines 350-356.\<close>

definition reverse_windows :: "real list \<Rightarrow> real list \<times> real list" where
  "reverse_windows v =
     (let midpoint = length v div 2 + 1 in
      if length v mod 2 = 1
      then (slice 0 (length v div 2) v, rev (drop midpoint v))
      else (slice 1 (length v div 2) v, rev (drop midpoint v)))"

text \<open>\<^verbatim>\<open>_reverse(self, v, transfer)\<close>: the returned pair \<^verbatim>\<open>(mx, flag)\<close> or the exception,
  and the object afterwards. With \<^verbatim>\<open>transfer=True\<close> the attributes are assigned in the
  source's order, so an \<^verbatim>\<open>IndexError\<close> at \<^verbatim>\<open>v[mx]\<close> leaves \<^verbatim>\<open>rev_point\<close> already set.
  In the branch without a reverse leg \<^verbatim>\<open>len(v) - 1\<close> is never negative: that branch needs
  a non-empty window, so \<open>v\<close> has at least three samples there.\<close>

definition oect_reverse :: "oect \<Rightarrow> real list \<Rightarrow> bool \<Rightarrow> (py_error + nat \<times> bool) \<times> oect" where
  "oect_reverse self v transfer_flag =
     (let midpoint = length v div 2 + 1;
          (x, y) = reverse_windows v;
          rev_found = allclose x y
      in if rev_found then
           (let mx = midpoint - 1 in
            if transfer_flag then
              (let self1 = self\<lparr> rev_point := Some mx \<rparr> in
               if mx < length v
               then (Inr (mx, True),
                     self1\<lparr> rev_v := Some (v ! mx), opt_Reverse := True, reverse := True \<rparr>)
               else (Inl IndexError, self1))
            else (Inr (mx, True), self))
         else
           (let mx = length v - 1 in
            if transfer_flag then
              (let self1 = self\<lparr> rev_point := Some mx \<rparr> in
               if mx < length v
               then (Inr (mx, False),
                     self1\<lparr> rev_v := Some (v ! mx), opt_Reverse := False, reverse := False \<rparr>)
               else (Inl IndexError, self1))
            else (Inr (mx, False), self)))"

section \<open>More numpy: errors in sequence, extrema, gradients, grids, binary search\<close>

text \<open>Sequencing of calls that may raise: the first exception ends the computation.\<close>

definition bind_e :: "'e + 'a \<Rightarrow> ('a \<Rightarrow> 'e + 'b) \<Rightarrow> 'e + 'b" where
  "bind_e m f = (case m of Inl e \<Rightarrow> Inl e | Inr x \<Rightarrow> f x)"

text \<open>\<^verbatim>\<open>np.max\<close>, \<^verbatim>\<open>np.min\<close>, \<^verbatim>\<open>np.argmax\<close> and \<^verbatim>\<open>np.argmin\<close> raise \<^verbatim>\<open>ValueError\<close> on an empty
  array; the arg-functions return the first position of the extremum.\<close>

definition np_max :: "real list \<Rightarrow> py_error + real" where
  "np_max xs = (case xs of [] \<Rightarrow> Inl ValueError | x # rest \<Rightarrow> Inr (fold max rest x))"

definition np_min :: "real list \<Rightarrow> py_error + real" where
  "np_min xs = (case xs of [] \<Rightarrow> Inl ValueError | x # rest \<Rightarrow> Inr (fold min rest x))"

definition np_argmax :: "real list \<Rightarrow> py_error + nat" where
  "np_argmax xs = (case xs of [] \<Rightarrow> Inl ValueError
     | x # rest \<Rightarrow> Inr (length (takeWhile (\<lambda>y. y \<noteq> fold max rest x) xs)))"

definition np_argmin :: "real list \<Rightarrow> py_error + nat" where
  "np_argmin xs = (case xs of [] \<Rightarrow> Inl ValueError
     | x # rest \<Rightarrow> Inr (length (takeWhile (\<lambda>y. y \<noteq> fold min rest x) xs)))"

text \<open>\<^verbatim>\<open>np.gradient(f)\<close> of a one-dimensional array with unit spacing: central differences
  inside, one-sided differences at the two ends, \<^verbatim>\<open>ValueError\<close> below two elements.\<close>

definition np_gradient :: "real list \<Rightarrow> py_error + real list" where
  "np_gradient f =
     (let n = length f in
      if n < 2 then Inl ValueError
      else Inr (map (\<lambda>i. if i = 0 then f ! 1 - f ! 0
                          else if i = n - 1 then f ! (n - 1) - f ! (n - 2)
                          else (f ! (i + 1) - f ! (i - 1)) / 2) [0 ..< n]))"

text \<open>\<^verbatim>\<open>np.arange(start, stop, step)\<close> for a positive step: \<open>ceil((stop - start) / step)\<close>
  values \<open>start + k * step\<close>.\<close>

definition np_arange :: "real \<Rightarrow> real \<Rightarrow> real \<Rightarrow> real list" where
  "np_arange start stop step =
     map (\<lambda>k. start + real k * step) [0 ..< nat \<lceil>(stop - start) / step\<rceil>]"

text \<open>Arithmetic that can leave the finite floats. A real number does not carry the sign of
  a zero; a zero divisor is read as \<^verbatim>\<open>+0.0\<close>.\<close>

definition np_div :: "real \<Rightarrow> real \<Rightarrow> np_float" where
  "np_div a b = (if b \<noteq> 0 then Fin (a / b) else if a > 0 then PInf else if a < 0 then NInf else NaN)"

fun np_add :: "np_float \<Rightarrow> np_float \<Rightarrow> np_float" where
  "np_add (Fin a) (Fin b) = Fin (a + b)"
| "np_add NaN _ = NaN"
| "np_add _ NaN = NaN"
| "np_add PInf NInf = NaN"
| "np_add NInf PInf = NaN"
| "np_add PInf _ = PInf"
| "np_add _ PInf = PInf"
| "np_add NInf _ = NInf"
| "np_add _ NInf = NInf"

fun np_abs :: "np_float \<Rightarrow> np_float" where
  "np_abs (Fin a) = Fin \<bar>a\<bar>"
| "np_abs PInf = PInf"
| "np_abs NInf = PInf"
| "np_abs NaN = NaN"

text \<open>\<^verbatim>\<open>np.mean\<close>; of an empty array it is NaN (numpy only warns).\<close>

definition np_mean :: "np_float list \<Rightarrow> np_float" where
  "np_mean xs =
     (if xs = [] then NaN
      else case fold (\<lambda>x acc. np_add acc x) xs (Fin 0) of
             Fin s \<Rightarrow> Fin (s / real (length xs))
           | other \<Rightarrow> other)"

text \<open>The order numpy sorts and searches floats by: NaN is larger than every number.\<close>

fun np_lt :: "real \<Rightarrow> np_float \<Rightarrow> bool" where
  "np_lt a (Fin b) = (a < b)"
| "np_lt a PInf = True"
| "np_lt a NInf = False"
| "np_lt a NaN = True"

text \<open>\<^verbatim>\<open>np.searchsorted(arr, key)\<close> (side \<^verbatim>\<open>'left'\<close>) is a binary search; written as the
  search itself, it is defined on arrays that are not sorted as well.\<close>

function bsearch_left :: "real list \<Rightarrow> np_float \<Rightarrow> nat \<Rightarrow> nat \<Rightarrow> nat" where
  "bsearch_left arr key imin imax =
     (if imin < imax
      then (if np_lt (arr ! (imin + (imax - imin) div 2)) key
            then bsearch_left arr key (imin + (imax - imin) div 2 + 1) imax
            else bsearch_left arr key imin (imin + (imax - imin) div 2))
      else imin)"
  by pat_completeness auto
termination
  by (relation "measure (\<lambda>(arr, key, imin, imax). imax - imin)") auto

declare bsearch_left.simps [simp del]

definition searchsorted :: "real list \<Rightarrow> np_float \<Rightarrow> nat" where
  "searchsorted arr key = bsearch_left arr key 0 (length arr)"

section \<open>Library functions the program calls\<close>

text \<open>
  The program calls \<^verbatim>\<open>deriv.gm_deriv\<close>, \<^verbatim>\<open>scipy.interpolate.UnivariateSpline\<close> (with
  \<^verbatim>\<open>k=5, s=1e-7\<close>), \<^verbatim>\<open>scipy.signal.find_peaks_cwt\<close>, \<^verbatim>\<open>scipy.optimize.curve_fit\<close> (fitting
  \<^verbatim>\<open>line_f\<close>) and, to build the table \<^verbatim>\<open>self.gms\<close>, pandas. Their code is not part of
  \<^verbatim>\<open>src/oect.py\<close>; they are parameters of the model, each returning its result or the
  exception it raises. The bounds of a fit are \<open>(lower, upper)\<close>, each a pair for
  \<open>(f0, f1)\<close>, with \<open>None\<close> for an infinite bound.
\<close>

record fitparams =
  window :: nat
  polyorder :: nat
  deg :: nat

type_synonym bounds = "(real option \<times> real option) \<times> (real option \<times> real option)"

record extern =
  gm_deriv :: "real list \<Rightarrow> real list \<Rightarrow> string \<Rightarrow> fitparams \<Rightarrow> py_error + real list"
  UnivariateSpline :: "real list \<Rightarrow> real list \<Rightarrow> py_error + (real \<Rightarrow> real)"
  find_peaks_cwt :: "real list \<Rightarrow> nat list \<Rightarrow> py_error + nat list"
  curve_fit :: "real list \<Rightarrow> real list \<Rightarrow> bounds \<Rightarrow> py_error + real \<times> real"
  gms_table :: "(string \<times> series) list \<Rightarrow> (string \<times> series) list \<Rightarrow> py_error option"

section \<open>DerivativeEngine: \<^verbatim>\<open>_calc_gm\<close> (lines 439-494) and \<^verbatim>\<open>calc_gms\<close> (lines 388-437)\<close>

text \<open>The inner \<^verbatim>\<open>get_gm\<close> (lines 465-471): the DataFrame constructor raises \<^verbatim>\<open>ValueError\<close>
  when the data and the index differ in length.\<close>

definition get_gm ::
  "extern \<Rightarrow> real list \<Rightarrow> real list \<Rightarrow> string \<Rightarrow> fitparams \<Rightarrow> py_error + series" where
  "get_gm ext v i fit options =
     bind_e (gm_deriv ext v i fit options)
       (\<lambda>gml. if length gml = length v then Inr (zip v gml) else Inl ValueError)"

text \<open>The peak of one leg (lines 475-476 and 485-486): \<^verbatim>\<open>np.max\<close> of the gm values and the
  index label at \<^verbatim>\<open>np.argmax\<close>, as a row \<open>(voltage, peak)\<close> of \<^verbatim>\<open>gm_peaks\<close>.\<close>

definition leg_peak :: "series \<Rightarrow> py_error + real \<times> real" where
  "leg_peak gm =
     bind_e (np_max (map snd gm))
       (\<lambda>pk. bind_e (np_argmax (map snd gm)) (\<lambda>a. Inr (map fst gm ! a, pk)))"

text \<open>\<^verbatim>\<open>_calc_gm(self, df)\<close> returns \<^verbatim>\<open>(gm_fwd, gm_bwd, gm_peaks)\<close>. It reads \<^verbatim>\<open>rev_point\<close>
  and \<^verbatim>\<open>reverse\<close> from the object. Line 453 evaluates \<^verbatim>\<open>v[0]\<close> and \<^verbatim>\<open>v[mx]\<close> (its result is
  overwritten on line 454), so an index outside \<open>v\<close>, or a \<^verbatim>\<open>rev_point\<close> that is still
  \<^verbatim>\<open>np.nan\<close>, raises \<^verbatim>\<open>IndexError\<close>. \<^verbatim>\<open>int(0.04 * n)\<close> is \<open>4 * n div 100\<close>. An empty
  DataFrame is the empty list of rows.\<close>

definition oect_calc_gm :: "extern \<Rightarrow> oect \<Rightarrow> series \<Rightarrow> py_error + series \<times> series \<times> series" where
  "oect_calc_gm ext self df =
     (let v = map fst df; i = map snd df in
      case rev_point self of
        None \<Rightarrow> Inl IndexError
      | Some mx \<Rightarrow>
          if mx < length v then
            (let vl_lo = take mx v;
                 fit = \<lparr> window = max (4 * length (findex (transfers self)) div 100) 3,
                         polyorder = 2, deg = 8 \<rparr>
             in bind_e (get_gm ext vl_lo (take mx i) (opt_gm_method self) fit) (\<lambda>gm_fwd.
                bind_e (leg_peak gm_fwd) (\<lambda>pk_fwd.
                if reverse self then
                  (let vl_hi = rev (drop mx v); i_hi = rev (drop mx i)
                   in bind_e (get_gm ext vl_hi i_hi (opt_gm_method self) fit) (\<lambda>gm_bwd.
                      bind_e (leg_peak gm_bwd) (\<lambda>pk_bwd.
                      Inr (gm_fwd, gm_bwd, [pk_fwd, pk_bwd]))))
                else Inr (gm_fwd, [], [pk_fwd]))))
          else Inl IndexError)"

text \<open>The loop of lines 396-397: each curve's results are stored under its key, and
  \<^verbatim>\<open>self.gm_peaks\<close> is assigned on every pass.\<close>

fun calc_gms_loop :: "extern \<Rightarrow> (string \<times> series) list \<Rightarrow> oect \<Rightarrow> py_error option \<times> oect" where
  "calc_gms_loop ext [] self = (None, self)"
| "calc_gms_loop ext ((i, df) # rest) self =
     (case oect_calc_gm ext self df of
        Inl e \<Rightarrow> (Some e, self)
      | Inr (f, b, p) \<Rightarrow>
          calc_gms_loop ext rest
            (self\<lparr> gm_fwd := AList.update i f (gm_fwd self),
                   gm_bwd := AList.update i b (gm_bwd self),
                   gm_peaks := Some p \<rparr>))"

text \<open>\<^verbatim>\<open>calc_gms(self)\<close>. Lines 399-434 copy the curves into the table \<^verbatim>\<open>self.gms\<close>; the
  table is not part of the modelled state, and that step is the parameter \<open>gms_table\<close>,
  which can only raise. Line 436 reads \<^verbatim>\<open>self.gm_peaks\<close>, which does not exist when no
  transfer curve was loaded.\<close>

definition calc_gms :: "extern \<Rightarrow> oect \<Rightarrow> py_error option \<times> oect" where
  "calc_gms ext self =
     (case calc_gms_loop ext (transfer self) self of
        (Some e, s) \<Rightarrow> (Some e, s)
      | (None, s) \<Rightarrow>
          (case gms_table ext (gm_fwd s) (gm_bwd s) of
             Some e \<Rightarrow> (Some e, s)
           | None \<Rightarrow>
               (case gm_peaks s of
                  None \<Rightarrow> (Some AttributeError, s)
                | Some p \<Rightarrow> (None, s\<lparr> peak_gm := Some (map snd p) \<rparr>))))"

section \<open>Polarity: \<^verbatim>\<open>quadrant\<close> (lines 625-635)\<close>

text \<open>\<^verbatim>\<open>self.gm_peaks.index\<close> holds the gm-peak voltages. When no voltage is negative and
  none is positive, \<^verbatim>\<open>self.quad\<close> is left as it was.\<close>

definition quadrant :: "oect \<Rightarrow> py_error option \<times> oect" where
  "quadrant self =
     (case gm_peaks self of
        None \<Rightarrow> (Some AttributeError, self)
      | Some pk \<Rightarrow>
          if list_ex (\<lambda>x. x < 0) (map fst pk) then (None, self\<lparr> quad := Some QIII \<rparr>)
          else if list_ex (\<lambda>x. x > 0) (map fst pk) then (None, self\<lparr> quad := Some QI \<rparr>)
          else (None, self))"

section \<open>InflectionFinder: \<^verbatim>\<open>_find_peak\<close> (lines 745-780)\<close>

text \<open>The default of the parameter \<^verbatim>\<open>width\<close> (line 746).\<close>

definition find_peak_default_width :: nat where
  "find_peak_default_width = 15"

text \<open>Line 775, \<^verbatim>\<open>peaks = peaks[peaks > 5]\<close>.\<close>

definition edge_filter :: "nat list \<Rightarrow> nat list" where
  "edge_filter peaks = filter (\<lambda>p. p > 5) peaks"

text \<open>The second derivative on the resampled grid (lines 770-772): the grid and \<^verbatim>\<open>d2\<close>.
  \<^verbatim>\<open>V[0]\<close> and \<^verbatim>\<open>V[-1]\<close> raise \<^verbatim>\<open>IndexError\<close> on an empty array.\<close>

definition second_derivative ::
  "extern \<Rightarrow> real list \<Rightarrow> real list \<Rightarrow> py_error + real list \<times> real list" where
  "second_derivative ext I V =
     bind_e (UnivariateSpline ext V I) (\<lambda>Id_spl.
     if V = [] then Inl IndexError
     else (let V_spl = np_arange (V ! 0) (last V) (5 / 1000)
           in bind_e (np_gradient (map Id_spl V_spl)) (\<lambda>g.
              bind_e (np_gradient g) (\<lambda>d2. Inr (V_spl, d2)))))"

text \<open>\<^verbatim>\<open>_find_peak(I, V, negative_Vt, width)\<close>; \<^verbatim>\<open>negative_Vt\<close> is not used by the source.
  \<^verbatim>\<open>V_spl[p]\<close> raises \<^verbatim>\<open>IndexError\<close> for a peak outside the grid.\<close>

definition oect_find_peak :: "extern \<Rightarrow> real list \<Rightarrow> real list \<Rightarrow> nat \<Rightarrow> py_error + nat list" where
  "oect_find_peak ext I V width =
     bind_e (second_derivative ext I V) (\<lambda>(V_spl, d2).
     bind_e (find_peaks_cwt ext d2 [1 ..< width]) (\<lambda>found.
     (let peaks = edge_filter found
      in if list_all (\<lambda>p. p < length V_spl) peaks
         then Inr (map (\<lambda>p. searchsorted V (Fin (V_spl ! p))) peaks)
         else Inl IndexError)))"

section \<open>ThresholdFitter: \<^verbatim>\<open>line_f\<close>, \<^verbatim>\<open>_min_fit\<close> (lines 696-743) and \<^verbatim>\<open>thresh\<close> (lines 637-693)\<close>

definition line_f :: "real \<Rightarrow> real \<Rightarrow> real \<Rightarrow> real" where
  "line_f x f0 f1 = f1 + f0 * x"

text \<open>The bounds passed on line 724, \<^verbatim>\<open>([-np.inf, -np.inf], [0, np.inf])\<close>.\<close>

definition fit_bounds :: bounds where
  "fit_bounds = ((None, None), (Some 0, None))"

text \<open>Lines 713-717: the peak search, and the second search when the first finds nothing.\<close>

definition peak_candidates :: "extern \<Rightarrow> real list \<Rightarrow> real list \<Rightarrow> py_error + nat list" where
  "peak_candidates ext I_d V =
     bind_e (oect_find_peak ext (map (\<lambda>x. x * 1000) I_d) V find_peak_default_width) (\<lambda>mx_d2.
     if mx_d2 = [] then oect_find_peak ext (map (\<lambda>x. x * 1000) I_d) V 15
     else Inr mx_d2)"

text \<open>The loop of lines 720-729, collecting the fits and their residuals. The rows of
  \<^verbatim>\<open>_fits\<close> after the placeholder row \<^verbatim>\<open>[0, 0]\<close> are the list \<open>fits\<close>.\<close>

fun min_fit_loop ::
  "extern \<Rightarrow> real list \<Rightarrow> real list \<Rightarrow> nat list \<Rightarrow> (real \<times> real) list \<Rightarrow> real list
     \<Rightarrow> py_error + (real \<times> real) list \<times> real list" where
  "min_fit_loop ext I_d V [] fits residuals = Inr (fits, residuals)"
| "min_fit_loop ext I_d V (m # ms) fits residuals =
     (case curve_fit ext (take m V) (take m I_d) fit_bounds of
        Inl e \<Rightarrow> Inl e
      | Inr (f0, f1) \<Rightarrow>
          (let v_x = searchsorted V (np_div (- f1) f0);
               res = sum_list (map (\<lambda>(y, x). (y - line_f x f0 f1)\<^sup>2) (zip (take v_x I_d) (take v_x V)))
           in min_fit_loop ext I_d V ms (fits @ [(f0, f1)]) (residuals @ [res])))"

text \<open>The part of \<^verbatim>\<open>_min_fit\<close> after the quadrant is known (lines 708-737). Without a
  candidate \<^verbatim>\<open>_fits\<close> is still the one-dimensional \<^verbatim>\<open>[0, 0]\<close>, and \<^verbatim>\<open>_fits[1:, :]\<close> raises
  \<^verbatim>\<open>IndexError\<close>.\<close>

definition min_fit_core :: "extern \<Rightarrow> quadrant_t \<Rightarrow> real list \<Rightarrow> real list \<Rightarrow> py_error + real \<times> real" where
  "min_fit_core ext q Id0 V0 =
     (let I_d = (if q = QI then rev Id0 else Id0);
          V = (if q = QI then rev (map uminus V0) else V0)
      in bind_e (peak_candidates ext I_d V) (\<lambda>mx_d2.
         bind_e (min_fit_loop ext I_d V mx_d2 [] []) (\<lambda>(fits, residuals).
         if fits = [] then Inl IndexError
         else bind_e (np_argmin residuals) (\<lambda>a.
              (let fit = fits ! a
               in if q = QI then Inr (- fst fit, snd fit) else Inr fit)))))"

text \<open>\<^verbatim>\<open>_min_fit(self, Id, V)\<close> (\<open>I_d\<close> stands for \<^verbatim>\<open>Id\<close>): the fit or the exception, and the object afterwards (the
  call of \<^verbatim>\<open>quadrant\<close> may assign \<^verbatim>\<open>self.quad\<close>). \<^verbatim>\<open>V[2]\<close> raises \<^verbatim>\<open>IndexError\<close> on fewer
  than three samples; reading \<^verbatim>\<open>self.quad\<close> raises \<^verbatim>\<open>AttributeError\<close> if it was never
  assigned.\<close>

definition oect_min_fit ::
  "extern \<Rightarrow> oect \<Rightarrow> real list \<Rightarrow> real list \<Rightarrow> (py_error + real \<times> real) \<times> oect" where
  "oect_min_fit ext self I_d V =
     (if length V < 3 then (Inl IndexError, self)
      else (let V1 = (if V ! 2 < V ! 1 then rev V else V);
                Id1 = (if V ! 2 < V ! 1 then rev I_d else I_d)
            in case quadrant self of
                 (Some e, s) \<Rightarrow> (Inl e, s)
               | (None, s) \<Rightarrow>
                   (case quad s of
                      None \<Rightarrow> (Inl AttributeError, s)
                    | Some q \<Rightarrow> (min_fit_core ext q Id1 V1, s))))"

text \<open>One pass of the loop of \<^verbatim>\<open>thresh\<close> (lines 662-665): the fit of one column.\<close>

definition curve_fit_step ::
  "extern \<Rightarrow> oect \<Rightarrow> real list \<Rightarrow> real list \<Rightarrow> (py_error + real \<times> real) \<times> oect" where
  "curve_fit_step ext self col v_lo =
     (let Id_lo = map (\<lambda>x. sqrt \<bar>x\<bar>) col
      in case np_min Id_lo of
           Inl e \<Rightarrow> (Inl e, self)
         | Inr lowest \<Rightarrow> oect_min_fit ext self (map (\<lambda>x. x - lowest) Id_lo) v_lo)"

text \<open>The loop of lines 660-680 over the pairs \<^verbatim>\<open>zip(self.transfers, self.gm_peaks.index)\<close>,
  with \<^verbatim>\<open>plot=False\<close>.\<close>

fun thresh_loop ::
  "extern \<Rightarrow> oect \<Rightarrow> real list \<Rightarrow> ((string \<times> real list) \<times> real) list \<Rightarrow> np_float list \<Rightarrow> np_float list
     \<Rightarrow> (py_error + np_float list \<times> np_float list) \<times> oect" where
  "thresh_loop ext self v_lo [] vts vgvts = (Inr (vts, vgvts), self)"
| "thresh_loop ext self v_lo (((tf, col), pk) # rest) vts vgvts =
     (case curve_fit_step ext self col v_lo of
        (Inl e, s) \<Rightarrow> (Inl e, s)
      | (Inr (f0, f1), s) \<Rightarrow>
          thresh_loop ext s v_lo rest
            (vts @ [np_div (- f1) f0])
            (vgvts @ [np_abs (np_add (Fin pk) (np_div f1 f0))]))"

text \<open>The pairs the loop runs over.\<close>

definition thresh_pairs :: "oect \<Rightarrow> series \<Rightarrow> ((string \<times> real list) \<times> real) list" where
  "thresh_pairs self pk = zip (fcolumns (transfers self)) (map fst pk)"

text \<open>\<^verbatim>\<open>thresh(self, plot=False)\<close>: the exception, if any, and the object afterwards. The four
  result attributes are assigned after the loop only (lines 688-691).\<close>

definition thresh :: "extern \<Rightarrow> oect \<Rightarrow> py_error option \<times> oect" where
  "thresh ext self =
     (case gm_peaks self of
        None \<Rightarrow> (Some AttributeError, self)
      | Some pk \<Rightarrow>
          (case thresh_loop ext self (findex (transfers self)) (thresh_pairs self pk) [] [] of
             (Inl e, s) \<Rightarrow> (Some e, s)
           | (Inr (vts, vgvts), s) \<Rightarrow>
               (None, s\<lparr> Vt := Some (np_mean vts), Vts := Some vts,
                         VgVt := Some (np_mean vgvts), VgVts := Some vgvts \<rparr>)))"

section \<open>What is assumed of \<^verbatim>\<open>curve_fit\<close>\<close>

text \<open>\<^verbatim>\<open>scipy.optimize.curve_fit\<close> with \<^verbatim>\<open>bounds\<close> returns parameters inside the bounds.\<close>

fun lower_ok :: "real option \<Rightarrow> real \<Rightarrow> bool" where
  "lower_ok None x = True"
| "lower_ok (Some l) x = (l \<le> x)"

fun upper_ok :: "real option \<Rightarrow> real \<Rightarrow> bool" where
  "upper_ok None x = True"
| "upper_ok (Some u) x = (x \<le> u)"

definition within_bounds :: "bounds \<Rightarrow> real \<times> real \<Rightarrow> bool" where
  "within_bounds b p =
     (lower_ok (fst (fst b)) (fst p) \<and> upper_ok (fst (snd b)) (fst p) \<and>
      lower_ok (snd (fst b)) (snd p) \<and> upper_ok (snd (snd b)) (snd p))"

definition respects_bounds :: "extern \<Rightarrow> bool" where
  "respects_bounds ext = (\<forall>x y b p. curve_fit ext x y b = Inr p \<longrightarrow> within_bounds b p)"

section \<open>Stand-ins for the library functions, for the closed examples\<close>

text \<open>
  The examples below run the model on concrete curves, so they need concrete library
  functions. These stand-ins are simple and exact on the examples' data: a derivative by
  difference quotients, a piecewise linear interpolant for the spline, the strict local
  maxima for the peak finder, and the least-squares line, moved into the bounds, for the
  fit. No general theorem depends on them.
\<close>

definition demo_gm_deriv ::
  "real list \<Rightarrow> real list \<Rightarrow> string \<Rightarrow> fitparams \<Rightarrow> py_error + real list" where
  "demo_gm_deriv v i method options =
     (let n = length v in
      if length i = n \<and> 2 \<le> n
      then Inr (map (\<lambda>k. if k + 1 < n then (i ! (k + 1) - i ! k) / (v ! (k + 1) - v ! k)
                          else (i ! k - i ! (k - 1)) / (v ! k - v ! (k - 1))) [0 ..< n])
      else Inl ValueError)"

fun lin_interp :: "(real \<times> real) list \<Rightarrow> real \<Rightarrow> real" where
  "lin_interp [] x = 0"
| "lin_interp [(a, b)] x = b"
| "lin_interp ((a, b) # (c, d) # rest) x =
     (if x \<le> c then b + (d - b) * (x - a) / (c - a) else lin_interp ((c, d) # rest) x)"

definition demo_spline :: "real list \<Rightarrow> real list \<Rightarrow> py_error + (real \<Rightarrow> real)" where
  "demo_spline V I =
     (if length I = length V \<and> 6 \<le> length V then Inr (lin_interp (zip V I)) else Inl ValueError)"

definition demo_peaks :: "real list \<Rightarrow> nat list \<Rightarrow> py_error + nat list" where
  "demo_peaks d2 widths =
     Inr (filter (\<lambda>k. d2 ! (k - 1) < d2 ! k \<and> d2 ! (k + 1) < d2 ! k) [1 ..< length d2 - 1])"

definition clamp :: "real option \<Rightarrow> real option \<Rightarrow> real \<Rightarrow> real" where
  "clamp lo hi x =
     (let y = (case hi of None \<Rightarrow> x | Some u \<Rightarrow> min u x)
      in case lo of None \<Rightarrow> y | Some l \<Rightarrow> max l y)"

fun bound_pair_ok :: "real option \<Rightarrow> real option \<Rightarrow> bool" where
  "bound_pair_ok (Some l) (Some u) = (l < u)"
| "bound_pair_ok _ _ = True"

definition demo_fit :: "real list \<Rightarrow> real list \<Rightarrow> bounds \<Rightarrow> py_error + real \<times> real" where
  "demo_fit x y b =
     (let n = real (length x);
          sx = sum_list x; sy = sum_list y;
          sxx = sum_list (map (\<lambda>a. a * a) x);
          sxy = sum_list (map (\<lambda>(a, c). a * c) (zip x y));
          d = n * sxx - sx * sx
      in if length y = length x \<and> bound_pair_ok (fst (fst b)) (fst (snd b))
              \<and> bound_pair_ok (snd (fst b)) (snd (snd b))
         then (if d = 0 then Inl RuntimeError
               else (let f0 = clamp (fst (fst b)) (fst (snd b)) ((n * sxy - sx * sy) / d);
                         f1 = clamp (snd (fst b)) (snd (snd b)) ((sy - f0 * sx) / n)
                     in Inr (f0, f1)))
         else Inl ValueError)"

definition demo_extern :: extern where
  "demo_extern = \<lparr> gm_deriv = demo_gm_deriv, UnivariateSpline = demo_spline,
     find_peaks_cwt = demo_peaks, curve_fit = demo_fit, gms_table = (\<lambda>f b. None) \<rparr>"

text \<open>Example data: six gate voltages from \<open>-0.05\<close> to \<open>0\<close>; a drain current whose square
  root falls linearly to zero at \<open>-0.02\<close>; and a curve without any current.\<close>

definition demo_V :: "real list" where
  "demo_V = [- 5 / 100, - 4 / 100, - 3 / 100, - 2 / 100, - 1 / 100, 0]"

definition demo_I :: "real list" where
  "demo_I = [9, 4, 1, 0, 0, 0]"

definition zero_I :: "real list" where
  "zero_I = [0, 0, 0, 0, 0, 0]"

text \<open>A transfer curve whose current falls: the rows \<open>(voltage, current)\<close>.\<close>

definition falling_curve :: series where
  "falling_curve = [(0, 0), (1, - 1), (2, - 4), (3, - 9)]"


text \<open>A sweep up and back with its current, and the object of a user who passed
  \<^verbatim>\<open>options={'Reverse': False}\<close>.\<close>

definition mirrored_curve :: series where
  "mirrored_curve = [(0, 0), (1, - 1), (2, - 4), (1, - 2), (0, - 1)]"

definition no_reverse_wanted :: oect where
  "no_reverse_wanted = oect_init\<lparr> opt_Reverse := False \<rparr>"

text \<open>A device with two transfer curves of four samples each, none with a reverse leg, as
  loading leaves it: the split index is \<open>3\<close> and the table holds the first three samples
  of each curve.\<close>

definition rising_curve :: series where
  "rising_curve = [(0, 0), (1, 1), (2, 4), (3, 9)]"

definition two_curve_device :: oect where
  "two_curve_device = oect_init\<lparr>
     transfer := [(''-0.6_0'', rising_curve), (''-0.6_1'', falling_curve)],
     transfers := \<lparr> findex = [0, 1, 2],
                    fcolumns = [(''-0.6_0_01'', [0, 1, 4]), (''-0.6_1_01'', [0, - 1, - 4])] \<rparr>,
     rev_point := Some 3, rev_v := Some 3, opt_Reverse := False, reverse := False \<rparr>"

text \<open>The same six voltages mirrored to the positive side, for a device of the other
  polarity.\<close>

definition demo_V_pos :: "real list" where
  "demo_V_pos = [0, 1 / 100, 2 / 100, 3 / 100, 4 / 100, 5 / 100]"

text \<open>Objects after \<^verbatim>\<open>calc_gms\<close> with a gm peak at a negative and at a positive voltage.\<close>

definition negative_peak_device :: oect where
  "negative_peak_device = oect_init\<lparr> gm_peaks := Some [(- 4 / 100, 1)] \<rparr>"

definition positive_peak_device :: oect where
  "positive_peak_device = oect_init\<lparr> gm_peaks := Some [(4 / 100, 1)] \<rparr>"

text \<open>A device whose transfer table has two columns, the second without any current, and
  two stored gm peaks.\<close>

definition zero_curve_device :: oect where
  "zero_curve_device = oect_init\<lparr>
     transfers := \<lparr> findex = demo_V,
                    fcolumns = [(''-0.6_0_01'', demo_I), (''-0.6_0_02'', zero_I)] \<rparr>,
     gm_peaks := Some [(- 4 / 100, 1), (- 3 / 100, 1)] \<rparr>"

section \<open>Facts about the building blocks\<close>

lemma bind_e_simps [simp]:
  "bind_e (Inl e) f = Inl e"
  "bind_e (Inr x) f = f x"
  by (simp_all add: bind_e_def)

lemma bind_e_Inr:
  "bind_e m f = Inr y \<Longrightarrow> \<exists>x. m = Inr x \<and> f x = Inr y"
  by (cases m) simp_all

lemma fold_max_Max: "fold max rest x = Max (set (x # rest))"
  by (rule Max.set_eq_fold [symmetric])

lemma fold_min_Min: "fold min rest x = Min (set (x # rest))"
  by (rule Min.set_eq_fold [symmetric])

lemma np_max_Max: "np_max xs = Inr m \<Longrightarrow> xs \<noteq> [] \<and> m = Max (set xs)"
  by (cases xs) (auto simp: np_max_def fold_max_Max simp del: set_simps)

lemma np_min_Min: "np_min xs = Inr m \<Longrightarrow> xs \<noteq> [] \<and> m = Min (set xs)"
  by (cases xs) (auto simp: np_min_def fold_min_Min simp del: set_simps)

lemma first_position:
  assumes "m \<in> set xs"
  shows "length (takeWhile (\<lambda>y. y \<noteq> m) xs) < length xs \<and>
         xs ! length (takeWhile (\<lambda>y. y \<noteq> m) xs) = m"
proof -
  have "takeWhile (\<lambda>y. y \<noteq> m) xs \<noteq> xs"
    using assms by (auto simp: takeWhile_eq_all_conv)
  then have l: "length (takeWhile (\<lambda>y. y \<noteq> m) xs) < length xs"
    by (metis length_takeWhile_le le_neq_implies_less takeWhile_eq_take take_all_iff order_refl)
  then show ?thesis
    using nth_length_takeWhile [OF l] by simp
qed

lemma np_argmax_first:
  assumes "np_argmax xs = Inr a"
  shows "a < length xs \<and> xs ! a = Max (set xs)"
proof (cases xs)
  case Nil
  then show ?thesis using assms by (simp add: np_argmax_def)
next
  case (Cons x rest)
  have m: "fold max rest x = Max (set xs)"
    unfolding Cons by (rule fold_max_Max)
  have "Max (set xs) \<in> set xs"
    using Cons by (intro Max_in) simp_all
  from first_position [OF this]
  have "length (takeWhile (\<lambda>y. y \<noteq> fold max rest x) xs) < length xs \<and>
        xs ! length (takeWhile (\<lambda>y. y \<noteq> fold max rest x) xs) = Max (set xs)"
    unfolding m .
  moreover have "np_argmax xs = Inr (length (takeWhile (\<lambda>y. y \<noteq> fold max rest x) xs))"
    unfolding np_argmax_def Cons by (simp only: list.case)
  ultimately show ?thesis
    using assms by (simp only: sum.inject)
qed

lemma np_argmin_first:
  assumes "np_argmin xs = Inr a"
  shows "a < length xs \<and> xs ! a = Min (set xs)"
proof (cases xs)
  case Nil
  then show ?thesis using assms by (simp add: np_argmin_def)
next
  case (Cons x rest)
  have m: "fold min rest x = Min (set xs)"
    unfolding Cons by (rule fold_min_Min)
  have "Min (set xs) \<in> set xs"
    using Cons by (intro Min_in) simp_all
  from first_position [OF this]
  have "length (takeWhile (\<lambda>y. y \<noteq> fold min rest x) xs) < length xs \<and>
        xs ! length (takeWhile (\<lambda>y. y \<noteq> fold min rest x) xs) = Min (set xs)"
    unfolding m .
  moreover have "np_argmin xs = Inr (length (takeWhile (\<lambda>y. y \<noteq> fold min rest x) xs))"
    unfolding np_argmin_def Cons by (simp only: list.case)
  ultimately show ?thesis
    using assms by (simp only: sum.inject)
qed

lemma leg_peak_max:
  assumes "leg_peak gm = Inr p"
  shows "p \<in> set gm \<and> list_all (\<lambda>r. snd r \<le> snd p) gm"
proof -
  from assms obtain pk a where pk: "np_max (map snd gm) = Inr pk"
    and a: "np_argmax (map snd gm) = Inr a" and p: "p = (map fst gm ! a, pk)"
    by (auto simp: leg_peak_def dest!: bind_e_Inr)
  from np_max_Max [OF pk] have m: "pk = Max (set (map snd gm))" by simp
  from np_argmax_first [OF a] have l: "a < length gm"
    by simp
  from np_argmax_first [OF a] l have v: "snd (gm ! a) = Max (set (map snd gm))"
    by (simp del: set_map)
  have "p = gm ! a"
    using p m v l by (simp add: prod_eq_iff)
  then have "p \<in> set gm"
    using l by simp
  moreover have "snd p = pk"
    using p by simp
  moreover have "\<forall>r \<in> set gm. snd r \<le> pk"
    using m by simp
  ultimately show ?thesis
    by (simp add: list_all_iff)
qed

lemma get_gm_index:
  assumes "get_gm ext v i m fp = Inr gm"
  shows "map fst gm = v"
proof -
  from assms obtain gml where "gm_deriv ext v i m fp = Inr gml"
    and g: "(if length gml = length v then Inr (zip v gml) else Inl ValueError) = Inr gm"
    by (auto simp: get_gm_def dest!: bind_e_Inr)
  from g have "length gml = length v" and "gm = zip v gml"
    by (auto split: if_splits)
  then show ?thesis by simp
qed

lemma calc_gm_Inr:
  assumes "oect_calc_gm ext self df = Inr (fwd, bwd, pk)"
  shows "\<exists>mx pf. rev_point self = Some mx \<and> mx < length df \<and>
           map fst fwd = take mx (map fst df) \<and> leg_peak fwd = Inr pf \<and>
           (if reverse self
            then \<exists>pb. map fst bwd = rev (drop mx (map fst df)) \<and> leg_peak bwd = Inr pb \<and> pk = [pf, pb]
            else bwd = [] \<and> pk = [pf])"
proof (cases "rev_point self")
  case None
  then show ?thesis
    using assms by (simp add: oect_calc_gm_def Let_def)
next
  case (Some mx)
  show ?thesis
  proof (cases "mx < length df")
    case False
    then show ?thesis
      using assms Some by (simp add: oect_calc_gm_def Let_def)
  next
    case True
    then show ?thesis
      using assms Some
      by (auto simp: oect_calc_gm_def Let_def dest!: bind_e_Inr intro: get_gm_index split: if_splits)
        (rule get_gm_index, assumption)
  qed
qed

lemma calc_gm_frame:
  assumes "rev_point s' = rev_point s" and "reverse s' = reverse s"
    and "opt_gm_method s' = opt_gm_method s" and "transfers s' = transfers s"
  shows "oect_calc_gm ext s' df = oect_calc_gm ext s df"
  unfolding oect_calc_gm_def assms ..

lemma quad_update_self: "\<exists>q. s = s\<lparr> quad := q \<rparr>"
  by (rule exI [of _ "quad s"]) simp

lemma quadrant_state:
  "quadrant s = (r, s') \<Longrightarrow> \<exists>q. s' = s\<lparr> quad := q \<rparr>"
  by (auto simp: quadrant_def quad_update_self split: option.splits if_splits)

lemma min_fit_state:
  assumes "oect_min_fit ext s I_d V = (r, s')"
  shows "\<exists>q. s' = s\<lparr> quad := q \<rparr>"
proof (cases "length V < 3")
  case True
  then show ?thesis
    using assms by (auto simp: oect_min_fit_def quad_update_self)
next
  case False
  obtain e s1 where q: "quadrant s = (e, s1)" by (cases "quadrant s")
  from quadrant_state [OF q] obtain q1 where "s1 = s\<lparr> quad := q1 \<rparr>" by blast
  moreover have "s' = s1"
    using assms False q by (auto simp: oect_min_fit_def Let_def split: option.splits)
  ultimately show ?thesis by blast
qed

section \<open>Properties of the sweep splitter\<close>

lemma reverse_windows_same_length:
  "length (fst (reverse_windows v)) = length (snd (reverse_windows v))"
  by (auto simp: reverse_windows_def slice_def Let_def min_def) presburger+

lemma isclose_refl: "isclose a a"
  by (simp add: isclose_def)

lemma allclose_refl: "allclose x x"
  by (simp add: allclose_def list_all2_same isclose_refl)

lemma palindrome_odd_windows:
  assumes "odd (length v)" and "rev v = v"
  shows "reverse_windows v = (take (length v div 2) v, take (length v div 2) v)"
proof -
  have "rev (drop (length v div 2 + 1) v) = take (length v - (length v div 2 + 1)) (rev v)"
    by (simp add: rev_drop)
  moreover have "length v - (length v div 2 + 1) = length v div 2"
    using assms(1) by presburger
  ultimately have "rev (drop (length v div 2 + 1) v) = take (length v div 2) v"
    using assms(2) by simp
  moreover have "length v mod 2 = 1"
    using assms(1) by presburger
  ultimately show ?thesis
    by (simp add: reverse_windows_def slice_def)
qed

lemma palindrome_even_windows:
  assumes "even (length v)" and "rev (tl v) = tl v"
  shows "reverse_windows v = (take (length v div 2 - 1) (tl v), take (length v div 2 - 1) (tl v))"
proof -
  have d: "drop (length v div 2 + 1) v = drop (length v div 2) (tl v)"
    by (simp add: drop_Suc)
  have "rev (drop (length v div 2) (tl v)) = take (length (tl v) - length v div 2) (rev (tl v))"
    by (simp add: rev_drop)
  moreover have "length (tl v) - length v div 2 = length v div 2 - 1"
    using assms(1) by (simp, presburger)
  ultimately have y: "rev (drop (length v div 2 + 1) v) = take (length v div 2 - 1) (tl v)"
    using assms(2) d by simp
  have x: "slice 1 (length v div 2) v = take (length v div 2 - 1) (tl v)"
    by (cases v) (simp_all add: slice_def drop_Suc take_tl tl_take)
  have "length v mod 2 \<noteq> 1"
    using assms(1) by presburger
  then show ?thesis
    using x y by (simp add: reverse_windows_def)
qed

lemma reverse_found_result:
  assumes "allclose (fst (reverse_windows v)) (snd (reverse_windows v))"
  shows "fst (oect_reverse self v False) = Inr (length v div 2, True)"
    and "v \<noteq> [] \<Longrightarrow> oect_reverse self v True =
           (Inr (length v div 2, True),
            self\<lparr> rev_point := Some (length v div 2), rev_v := Some (v ! (length v div 2)),
                  opt_Reverse := True, reverse := True \<rparr>)"
  using assms by (simp_all add: oect_reverse_def Let_def split_beta)

lemma reverse_not_found_result:
  assumes "\<not> allclose (fst (reverse_windows v)) (snd (reverse_windows v))"
  shows "fst (oect_reverse self v False) = Inr (length v - 1, False)"
    and "v \<noteq> [] \<Longrightarrow> oect_reverse self v True =
           (Inr (length v - 1, False),
            self\<lparr> rev_point := Some (length v - 1), rev_v := Some (v ! (length v - 1)),
                  opt_Reverse := False, reverse := False \<rparr>)"
  using assms by (simp_all add: oect_reverse_def Let_def split_beta)

lemma mirrored_windows_close:
  assumes "odd (length v) \<and> rev v = v \<or> even (length v) \<and> rev (tl v) = tl v"
  shows "allclose (fst (reverse_windows v)) (snd (reverse_windows v))"
  using assms palindrome_odd_windows [of v] palindrome_even_windows [of v]
  by (auto simp: allclose_refl)

text \<open>
  Claim C1, as amended. A sweep of odd length whose second half is the reverse of the
  first (\<open>rev v = v\<close>), and a sweep of even length whose samples after the first one form
  such a mirrored sequence, is reported with the flag \<open>True\<close> and the index
  \<open>length v div 2\<close>: the position of the turning sample, which is \<^verbatim>\<open>midpoint - 1\<close> for
  \<^verbatim>\<open>midpoint = len(v)//2 + 1\<close>. With \<^verbatim>\<open>transfer=True\<close> the same pair is returned for a
  non-empty sweep and recorded on the object.
\<close>

theorem reverse_mirrored_split:
  assumes "odd (length v) \<and> rev v = v \<or> even (length v) \<and> rev (tl v) = tl v"
  shows "fst (oect_reverse self v False) = Inr (length v div 2, True) \<and>
         (v \<noteq> [] \<longrightarrow> oect_reverse self v True =
            (Inr (length v div 2, True),
             self\<lparr> rev_point := Some (length v div 2), rev_v := Some (v ! (length v div 2)),
                   opt_Reverse := True, reverse := True \<rparr>))"
  using reverse_found_result [OF mirrored_windows_close [OF assms], of self] by blast

theorem reverse_mirrored_split_witness:
  "fst (oect_reverse oect_init [1, 2, 3, 2, 1] False) = Inr (2, True) \<and>
   oect_reverse oect_init [0, 1, 2, 3, 2, 1] True =
     (Inr (3, True),
      oect_init\<lparr> rev_point := Some 3, rev_v := Some 3, opt_Reverse := True, reverse := True \<rparr>)"
proof -
  have a: "odd (length [1, 2, 3, 2, 1::real]) \<and> rev [1, 2, 3, 2, 1::real] = [1, 2, 3, 2, 1] \<or>
           even (length [1, 2, 3, 2, 1::real]) \<and> rev (tl [1, 2, 3, 2, 1::real]) = tl [1, 2, 3, 2, 1]"
    by simp
  have b: "odd (length [0, 1, 2, 3, 2, 1::real]) \<and> rev [0, 1, 2, 3, 2, 1::real] = [0, 1, 2, 3, 2, 1] \<or>
           even (length [0, 1, 2, 3, 2, 1::real]) \<and>
             rev (tl [0, 1, 2, 3, 2, 1::real]) = tl [0, 1, 2, 3, 2, 1]"
    by simp
  show ?thesis
    using reverse_mirrored_split [OF a, of oect_init] reverse_mirrored_split [OF b, of oect_init]
    by simp
qed

text \<open>
  Claim C1 as the specification states it fails twice. The mirrored sweep of odd length
  \<open>[1, 2, 3, 2, 1]\<close> is detected, but the index returned is \<open>2\<close>, not
  \<open>floor(5/2) + 1 = 3\<close>. The mirrored sweep of even length \<open>[1, 2, 2, 1]\<close> is not detected
  at all: the even branch compares \<^verbatim>\<open>v[1:2] = [2]\<close> with the reverse of \<^verbatim>\<open>v[3:] = [1]\<close>.
\<close>

theorem reverse_mirrored_counterexample:
  "rev [1, 2, 3, 2, 1::real] = [1, 2, 3, 2, 1] \<and>
   fst (oect_reverse oect_init [1, 2, 3, 2, 1] False) = Inr (2, True) \<and>
   (2::nat) \<noteq> length [1, 2, 3, 2, 1::real] div 2 + 1 \<and>
   rev [1, 2, 2, 1::real] = [1, 2, 2, 1] \<and>
   fst (oect_reverse oect_init [1, 2, 2, 1] False) = Inr (3, False)"
  by (simp add: oect_reverse_def reverse_windows_def slice_def allclose_def isclose_def)

lemma strictly_monotonic_ends:
  assumes "sorted_wrt (<) v \<or> sorted_wrt (>) v" and "3 \<le> length v"
    and "\<not> isclose (v ! 1) (last v)"
  shows "\<not> isclose (v ! 0) (last v)"
proof -
  have "v \<noteq> []" using assms(2) by auto
  then have l: "last v = v ! (length v - 1)"
    by (rule last_conv_nth)
  have i: "(0::nat) < 1" "(1::nat) < length v - 1" "length v - 1 < length v" "1 < length v"
    using assms(2) by simp_all
  from assms(1) show ?thesis
  proof
    assume "sorted_wrt (<) v"
    then have "v ! 0 < v ! 1" "v ! 1 < v ! (length v - 1)"
      using i by (simp_all add: sorted_wrt_iff_nth_less)
    then show ?thesis
      using assms(3) l by (simp add: isclose_def)
  next
    assume "sorted_wrt (>) v"
    then have "v ! 0 > v ! 1" "v ! 1 > v ! (length v - 1)"
      using i by (simp_all add: sorted_wrt_iff_nth_less)
    then show ?thesis
      using assms(3) l by (simp add: isclose_def)
  qed
qed

lemma window_snd_head:
  assumes "length v div 2 + 1 < length v"
  shows "snd (reverse_windows v) ! 0 = last v"
proof -
  have "v \<noteq> []" using assms by auto
  then have l: "last v = v ! (length v - 1)"
    by (rule last_conv_nth)
  have "rev (drop (length v div 2 + 1) v) ! 0 =
        drop (length v div 2 + 1) v ! (length (drop (length v div 2 + 1) v) - Suc 0)"
    using assms by (intro rev_nth) simp
  also have "\<dots> = v ! (length v - 1)"
  proof -
    have "length v div 2 + 1 + (length v - (length v div 2 + 1) - Suc 0) = length v - 1"
      using assms by arith
    then show ?thesis
      using assms by (simp del: add_Suc_right add_Suc)
  qed
  finally show ?thesis
    using l by (simp add: reverse_windows_def)
qed

lemma window_fst_head_odd:
  assumes "length v mod 2 = 1" and "3 \<le> length v"
  shows "fst (reverse_windows v) ! 0 = v ! 0 \<and> 0 < length (fst (reverse_windows v))"
proof -
  have "0 < length v div 2" using assms by presburger
  then show ?thesis
    using assms by (simp add: reverse_windows_def slice_def)
qed

lemma window_fst_head_even:
  assumes "length v mod 2 \<noteq> 1" and "3 \<le> length v"
  shows "fst (reverse_windows v) ! 0 = v ! 1 \<and> 0 < length (fst (reverse_windows v))"
proof -
  have "1 < length v div 2" using assms by presburger
  then show ?thesis
    using assms by (simp add: reverse_windows_def slice_def)
qed

lemma allclose_heads:
  assumes "allclose x y" and "0 < length x"
  shows "isclose (x ! 0) (y ! 0)"
  using assms by (simp add: allclose_def list_all2_conv_all_nth)

lemma monotonic_windows_differ:
  assumes "sorted_wrt (<) v \<or> sorted_wrt (>) v" and "3 \<le> length v"
    and "\<not> isclose (v ! 1) (last v)"
  shows "\<not> allclose (fst (reverse_windows v)) (snd (reverse_windows v))"
proof
  assume a: "allclose (fst (reverse_windows v)) (snd (reverse_windows v))"
  have s: "length v div 2 + 1 < length v"
    using assms(2) by presburger
  show False
  proof (cases "length v mod 2 = 1")
    case True
    then show ?thesis
      using allclose_heads [OF a] window_fst_head_odd [OF True assms(2)]
        window_snd_head [OF s] strictly_monotonic_ends [OF assms] by simp
  next
    case False
    then show ?thesis
      using allclose_heads [OF a] window_fst_head_even [OF False assms(2)]
        window_snd_head [OF s] assms(3) by simp
  qed
qed

text \<open>
  Claim C4, as amended. A strictly monotonic sweep of at least three samples whose second
  and last samples are not within numpy's tolerance of each other is reported without a
  reverse leg: the flag is \<open>False\<close> and the index is that of the last sample. What the
  splitter does on fewer than three samples is left out of this statement.
\<close>

theorem reverse_monotonic_no_leg:
  assumes "sorted_wrt (<) v \<or> sorted_wrt (>) v" and "3 \<le> length v"
    and "\<not> isclose (v ! 1) (last v)"
  shows "fst (oect_reverse self v False) = Inr (length v - 1, False) \<and>
         oect_reverse self v True =
           (Inr (length v - 1, False),
            self\<lparr> rev_point := Some (length v - 1), rev_v := Some (last v),
                  opt_Reverse := False, reverse := False \<rparr>)"
proof -
  have "v \<noteq> []" using assms(2) by auto
  then show ?thesis
    using reverse_not_found_result [OF monotonic_windows_differ [OF assms], of self]
    by (simp add: last_conv_nth)
qed

theorem reverse_monotonic_no_leg_witness:
  "fst (oect_reverse oect_init [1, 2, 3, 4] False) = Inr (3, False) \<and>
   oect_reverse oect_init [3, 2, 1] True =
     (Inr (2, False),
      oect_init\<lparr> rev_point := Some 2, rev_v := Some 1, opt_Reverse := False, reverse := False \<rparr>)"
proof -
  have a: "sorted_wrt (<) [1, 2, 3, 4::real] \<or> sorted_wrt (>) [1, 2, 3, 4::real]"
    and a3: "3 \<le> length [1, 2, 3, 4::real]"
    and ac: "\<not> isclose ([1, 2, 3, 4] ! 1) (last [1, 2, 3, 4])"
    by (simp_all add: isclose_def)
  have b: "sorted_wrt (<) [3, 2, 1::real] \<or> sorted_wrt (>) [3, 2, 1::real]"
    and b3: "3 \<le> length [3, 2, 1::real]"
    and bc: "\<not> isclose ([3, 2, 1] ! 1) (last [3, 2, 1])"
    by (simp_all add: isclose_def)
  show ?thesis
    using reverse_monotonic_no_leg [OF a a3 ac, of oect_init]
      reverse_monotonic_no_leg [OF b b3 bc, of oect_init]
    by simp
qed

text \<open>
  Claim C4 as the specification states it fails. On the strictly increasing sweep
  \<open>[1, 2]\<close>, on a single sample and on the empty sweep both comparison windows are empty,
  \<^verbatim>\<open>np.allclose\<close> of two empty arrays is true, and the flag returned is \<open>True\<close>. A strictly
  increasing sweep of three samples that lie within the tolerance of each other is
  reported with a reverse leg too.
\<close>

theorem reverse_short_counterexample:
  "length [1, 2::real] < 3 \<and> sorted_wrt (<) [1, 2::real] \<and>
   fst (oect_reverse oect_init [1, 2] False) = Inr (1, True) \<and>
   fst (oect_reverse oect_init [5] False) = Inr (0, True) \<and>
   fst (oect_reverse oect_init [] False) = Inr (0, True) \<and>
   sorted_wrt (<) [0, 1 / 1000000000, 2 / 1000000000 :: real] \<and>
   fst (oect_reverse oect_init [0, 1 / 1000000000, 2 / 1000000000] False) = Inr (1, True)"
  by (simp add: oect_reverse_def reverse_windows_def slice_def allclose_def isclose_def)
section \<open>The reported gm peak\<close>

text \<open>
  Claim C7, as amended. Alongside the gm curves \<^verbatim>\<open>_calc_gm\<close> reports, for the forward leg
  and, when a reverse leg is recorded, for the backward leg, one row of the curve: a row
  whose gm value is the signed maximum of the leg (\<^verbatim>\<open>np.max\<close>, no absolute value), with the
  voltage of that row.
\<close>

theorem calc_gm_reports_signed_maximum:
  assumes "oect_calc_gm ext self df = Inr (fwd, bwd, pk)"
  shows "pk \<noteq> [] \<and> hd pk \<in> set fwd \<and> list_all (\<lambda>r. snd r \<le> snd (hd pk)) fwd \<and>
         (if reverse self
          then length pk = 2 \<and> pk ! 1 \<in> set bwd \<and> list_all (\<lambda>r. snd r \<le> snd (pk ! 1)) bwd
          else length pk = 1 \<and> bwd = [])"
proof -
  from calc_gm_Inr [OF assms] obtain mx pf where pf: "leg_peak fwd = Inr pf"
    and r: "if reverse self
            then \<exists>pb. map fst bwd = rev (drop mx (map fst df)) \<and> leg_peak bwd = Inr pb \<and> pk = [pf, pb]
            else bwd = [] \<and> pk = [pf]"
    by blast
  show ?thesis
  proof (cases "reverse self")
    case True
    with r obtain pb where "leg_peak bwd = Inr pb" and "pk = [pf, pb]" by auto
    then show ?thesis
      using True leg_peak_max [OF pf] leg_peak_max [of bwd pb] by simp
  next
    case False
    with r show ?thesis
      using leg_peak_max [OF pf] by simp
  qed
qed

lemma falling_curve_gm:
  "oect_calc_gm demo_extern (oect_init\<lparr> rev_point := Some 3 \<rparr>) falling_curve =
     Inr ([(0, - 1), (1, - 3), (2, - 3)], [], [(0, - 1)])"
  by (simp add: oect_calc_gm_def falling_curve_def oect_init_def get_gm_def demo_extern_def
      demo_gm_deriv_def leg_peak_def np_max_def np_argmax_def upt_conv_Cons)

theorem calc_gm_reports_signed_maximum_witness:
  "oect_calc_gm demo_extern (oect_init\<lparr> rev_point := Some 3 \<rparr>) falling_curve =
     Inr ([(0, - 1), (1, - 3), (2, - 3)], [], [(0, - 1)]) \<and>
   hd [(0, - 1 :: real)] \<in> set [(0, - 1), (1, - 3), (2, - 3 :: real)] \<and>
   list_all (\<lambda>r. snd r \<le> snd (hd [(0, - 1 :: real)])) [(0 :: real, - 1), (1, - 3), (2, - 3)]"
  using calc_gm_reports_signed_maximum [OF falling_curve_gm] falling_curve_gm
  by (simp add: oect_init_def)

text \<open>
  Claim C7 as the specification states it fails. For the currents \<open>0, -1, -4, -9\<close> at the
  voltages \<open>0, 1, 2, 3\<close> (forward leg: the first three samples) the difference quotients
  are \<open>-1, -3, -3\<close>. The peak reported is \<open>-1\<close> at \<open>0\<close>, the signed maximum; the value of
  largest magnitude is \<open>-3\<close>.
\<close>

theorem calc_gm_magnitude_counterexample:
  "oect_calc_gm demo_extern (oect_init\<lparr> rev_point := Some 3 \<rparr>) falling_curve =
     Inr ([(0, - 1), (1, - 3), (2, - 3)], [], [(0, - 1)]) \<and>
   \<bar>- 1 :: real\<bar> < \<bar>- 3\<bar>"
  by (simp add: oect_calc_gm_def falling_curve_def oect_init_def get_gm_def demo_extern_def
      demo_gm_deriv_def leg_peak_def np_max_def np_argmax_def upt_conv_Cons)

section \<open>The reverse option\<close>

lemma reverse_transfer_state:
  assumes "oect_reverse self v True = (Inr (mx, flag), s)"
  shows "s = self\<lparr> rev_point := Some mx, rev_v := Some (v ! mx), opt_Reverse := flag, reverse := flag \<rparr>
         \<and> mx < length v"
  using assms by (auto simp: oect_reverse_def Let_def split_beta split: if_splits)

text \<open>What the program does with the option on every sweep. Splitting a transfer sweep
  assigns the detection result to the \<^verbatim>\<open>Reverse\<close> option and to \<^verbatim>\<open>self.reverse\<close>; the gm
  computation branches on \<^verbatim>\<open>self.reverse\<close> alone, and its result is the same for any value
  of the option.\<close>

lemma backward_gm_follows_detection:
  assumes "oect_reverse self v True = (Inr (mx, flag), s)"
    and "oect_calc_gm ext s df = Inr (fwd, bwd, pk)"
    and "map fst df = v"
  shows "opt_Reverse s = flag \<and> reverse s = flag \<and>
         (if flag then bwd \<noteq> [] \<and> map fst bwd = rev (drop mx v) \<and> length pk = 2
          else bwd = [] \<and> length pk = 1) \<and>
         oect_calc_gm ext (s\<lparr> opt_Reverse := r \<rparr>) df = Inr (fwd, bwd, pk)"
proof -
  from reverse_transfer_state [OF assms(1)]
  have s: "opt_Reverse s = flag" "reverse s = flag" "rev_point s = Some mx" and l: "mx < length v"
    by simp_all
  from calc_gm_Inr [OF assms(2)] s assms(3)
  have b: "if flag then map fst bwd = rev (drop mx v) \<and> length pk = 2
           else bwd = [] \<and> length pk = 1"
    by (auto split: if_splits)
  have "flag \<Longrightarrow> map fst bwd \<noteq> []"
    using b l by simp
  then have n: "flag \<Longrightarrow> bwd \<noteq> []"
    by auto
  have "oect_calc_gm ext (s\<lparr> opt_Reverse := r \<rparr>) df = oect_calc_gm ext s df"
    by (rule calc_gm_frame) simp_all
  then show ?thesis
    using s b n assms(2) by (simp split: if_splits)
qed

lemma no_reverse_wanted_split:
  "oect_reverse no_reverse_wanted (map fst mirrored_curve) True =
     (Inr (2, True),
      no_reverse_wanted\<lparr> rev_point := Some 2, rev_v := Some 2, opt_Reverse := True, reverse := True \<rparr>)"
  by (simp add: oect_reverse_def reverse_windows_def slice_def allclose_def isclose_def
      mirrored_curve_def)

lemma no_reverse_wanted_gm:
  "oect_calc_gm demo_extern
     (no_reverse_wanted\<lparr> rev_point := Some 2, rev_v := Some 2, opt_Reverse := True, reverse := True \<rparr>)
     mirrored_curve =
   Inr ([(0, - 1), (1, - 1)], [(0, - 1), (1, - 2), (2, - 2)], [(0, - 1), (0, - 1)])"
  by (simp add: oect_calc_gm_def mirrored_curve_def no_reverse_wanted_def oect_init_def get_gm_def
      demo_extern_def demo_gm_deriv_def leg_peak_def np_max_def np_argmax_def upt_conv_Cons)

text \<open>
  Claim C8, on a user who set the option to false. The claim is what the option is for:
  it is read from the configuration file, it has a default, and the comment on line 478
  says the backward leg is processed "if reverse trace exists and we want to process it".
  The program does not do that. Loading the mirrored sweep \<open>0, 1, 2, 1, 0\<close> overwrites the
  option with \<open>True\<close>, and the gm computation returns a backward curve of three samples;
  it returns the same backward curve when the option is set back to \<open>False\<close> before it
  runs, since it never reads the option.
\<close>

theorem reverse_option_ignored:
  "opt_Reverse no_reverse_wanted = False \<and>
   oect_reverse no_reverse_wanted (map fst mirrored_curve) True =
     (Inr (2, True),
      no_reverse_wanted\<lparr> rev_point := Some 2, rev_v := Some 2, opt_Reverse := True, reverse := True \<rparr>) \<and>
   oect_calc_gm demo_extern
     (no_reverse_wanted\<lparr> rev_point := Some 2, rev_v := Some 2, opt_Reverse := True, reverse := True \<rparr>)
     mirrored_curve =
   Inr ([(0, - 1), (1, - 1)], [(0, - 1), (1, - 2), (2, - 2)], [(0, - 1), (0, - 1)]) \<and>
   oect_calc_gm demo_extern
     (no_reverse_wanted\<lparr> rev_point := Some 2, rev_v := Some 2, opt_Reverse := False, reverse := True \<rparr>)
     mirrored_curve =
   Inr ([(0, - 1), (1, - 1)], [(0, - 1), (1, - 2), (2, - 2)], [(0, - 1), (0, - 1)])"
proof -
  have "oect_calc_gm demo_extern
     (no_reverse_wanted\<lparr> rev_point := Some 2, rev_v := Some 2, opt_Reverse := False, reverse := True \<rparr>)
     mirrored_curve =
   oect_calc_gm demo_extern
     (no_reverse_wanted\<lparr> rev_point := Some 2, rev_v := Some 2, opt_Reverse := True, reverse := True \<rparr>)
     mirrored_curve"
    by (rule calc_gm_frame) simp_all
  then show ?thesis
    using no_reverse_wanted_split no_reverse_wanted_gm
    by (simp add: no_reverse_wanted_def oect_init_def)
qed

section \<open>Quadrant selection\<close>

text \<open>
  Claim C9. With the gm-peak voltages \<open>map fst pk\<close> stored: if any of them is negative,
  \<^verbatim>\<open>quadrant\<close> sets \<open>quad\<close> to III, also when some other peak voltage is positive; if none
  is negative and some is positive it sets \<open>quad\<close> to I; and \<open>quad\<close> is I afterwards only
  if no peak voltage is negative, and, unless it was I before, some peak voltage is positive.
\<close>

theorem quadrant_selection:
  assumes "gm_peaks self = Some pk"
  shows "(list_ex (\<lambda>x. x < 0) (map fst pk) \<longrightarrow> quadrant self = (None, self\<lparr> quad := Some QIII \<rparr>)) \<and>
         (\<not> list_ex (\<lambda>x. x < 0) (map fst pk) \<and> list_ex (\<lambda>x. x > 0) (map fst pk)
            \<longrightarrow> quadrant self = (None, self\<lparr> quad := Some QI \<rparr>)) \<and>
         (quad (snd (quadrant self)) = Some QI \<longrightarrow> \<not> list_ex (\<lambda>x. x < 0) (map fst pk)) \<and>
         (quad (snd (quadrant self)) = Some QI \<and> quad self \<noteq> Some QI
            \<longrightarrow> list_ex (\<lambda>x. x > 0) (map fst pk))"
  using assms by (simp add: quadrant_def)

theorem quadrant_selection_witness:
  "quadrant (oect_init\<lparr> gm_peaks := Some [(- 3 / 10, 1), (2 / 10, 2)] \<rparr>) =
     (None, oect_init\<lparr> gm_peaks := Some [(- 3 / 10, 1), (2 / 10, 2)], quad := Some QIII \<rparr>) \<and>
   quadrant (oect_init\<lparr> gm_peaks := Some [(0, 1), (2 / 10, 2)] \<rparr>) =
     (None, oect_init\<lparr> gm_peaks := Some [(0, 1), (2 / 10, 2)], quad := Some QI \<rparr>)"
proof -
  have a: "gm_peaks (oect_init\<lparr> gm_peaks := Some [(- 3 / 10, 1), (2 / 10, 2)] \<rparr>)
             = Some [(- 3 / 10, 1), (2 / 10, 2)]"
    by simp
  have b: "gm_peaks (oect_init\<lparr> gm_peaks := Some [(0, 1), (2 / 10, 2)] \<rparr>)
             = Some [(0, 1), (2 / 10, 2)]"
    by simp
  show ?thesis
    using quadrant_selection [OF a] quadrant_selection [OF b] by simp
qed

section \<open>The stored gm peaks and the pairs of the threshold loop\<close>

lemma calc_gms_loop_frame:
  "calc_gms_loop ext cs s0 = (r, s) \<Longrightarrow>
     rev_point s = rev_point s0 \<and> reverse s = reverse s0 \<and>
     opt_gm_method s = opt_gm_method s0 \<and> transfers s = transfers s0"
proof (induction cs arbitrary: s0)
  case Nil
  then show ?case by simp
next
  case (Cons c cs)
  obtain i df where c: "c = (i, df)" by (cases c)
  show ?case
  proof (cases "oect_calc_gm ext s0 df")
    case (Inl e)
    then show ?thesis using Cons.prems c by simp
  next
    case (Inr t)
    obtain f b p where t: "t = (f, b, p)" by (cases t)
    from Cons.prems c Inr t
    have "calc_gms_loop ext cs
            (s0\<lparr> gm_fwd := AList.update i f (gm_fwd s0),
                  gm_bwd := AList.update i b (gm_bwd s0),
                  gm_peaks := Some p \<rparr>) = (r, s)"
      by simp
    from Cons.IH [OF this] show ?thesis by simp
  qed
qed

lemma calc_gms_loop_last:
  "calc_gms_loop ext cs s0 = (None, s) \<Longrightarrow> cs \<noteq> [] \<Longrightarrow>
     \<exists>f b p. oect_calc_gm ext s0 (snd (last cs)) = Inr (f, b, p) \<and> gm_peaks s = Some p"
proof (induction cs arbitrary: s0)
  case Nil
  then show ?case by simp
next
  case (Cons c cs)
  obtain i df where c: "c = (i, df)" by (cases c)
  show ?case
  proof (cases "oect_calc_gm ext s0 df")
    case (Inl e)
    then show ?thesis using Cons.prems c by simp
  next
    case (Inr t)
    obtain f b p where t: "t = (f, b, p)" by (cases t)
    define s1 where "s1 = s0\<lparr> gm_fwd := AList.update i f (gm_fwd s0),
                  gm_bwd := AList.update i b (gm_bwd s0),
                  gm_peaks := Some p \<rparr>"
    from Cons.prems c Inr t have l: "calc_gms_loop ext cs s1 = (None, s)"
      by (simp add: s1_def)
    show ?thesis
    proof (cases "cs = []")
      case True
      then show ?thesis
        using l c Inr t by (auto simp: s1_def)
    next
      case False
      from Cons.IH [OF l False] obtain f' b' p' where
        "oect_calc_gm ext s1 (snd (last cs)) = Inr (f', b', p')" and "gm_peaks s = Some p'"
        by blast
      moreover have "oect_calc_gm ext s1 (snd (last cs)) = oect_calc_gm ext s0 (snd (last cs))"
        by (rule calc_gm_frame) (simp_all add: s1_def)
      ultimately show ?thesis
        using False by auto
    qed
  qed
qed

text \<open>
  Claim C10, as amended. After \<^verbatim>\<open>calc_gms\<close> has run over a device with transfer curves,
  the stored \<^verbatim>\<open>gm_peaks\<close> is the peak record of the last curve alone: one row, or two when
  a reverse leg is recorded. \<^verbatim>\<open>thresh\<close> then pairs the columns of the transfer table, in
  order, with the peak voltages of that record, so it passes over no more columns than
  the record has rows, each paired with a voltage of the last curve.
\<close>

theorem gm_peaks_of_last_curve:
  assumes "calc_gms ext self = (None, s)" and "transfer self \<noteq> []"
  shows "\<exists>f b p. oect_calc_gm ext self (snd (last (transfer self))) = Inr (f, b, p) \<and>
           gm_peaks s = Some p \<and> peak_gm s = Some (map snd p) \<and>
           length p = (if reverse self then 2 else 1) \<and>
           thresh_pairs s p = zip (fcolumns (transfers self)) (map fst p) \<and>
           thresh ext s =
             (case thresh_loop ext s (findex (transfers self)) (thresh_pairs s p) [] [] of
                (Inl e, s') \<Rightarrow> (Some e, s')
              | (Inr (vts, vgvts), s') \<Rightarrow>
                  (None, s'\<lparr> Vt := Some (np_mean vts), Vts := Some vts,
                             VgVt := Some (np_mean vgvts), VgVts := Some vgvts \<rparr>))"
proof -
  obtain r0 s0 where l: "calc_gms_loop ext (transfer self) self = (r0, s0)"
    by (cases "calc_gms_loop ext (transfer self) self")
  from assms(1) l have r0: "r0 = None"
    by (cases r0) (simp_all add: calc_gms_def)
  from assms(1) l r0 obtain p0 where p0: "gm_peaks s0 = Some p0"
    and s: "s = s0\<lparr> peak_gm := Some (map snd p0) \<rparr>"
    by (auto simp: calc_gms_def split: option.splits)
  from calc_gms_loop_last [OF l [unfolded r0] assms(2)] p0 obtain f b where
    g: "oect_calc_gm ext self (snd (last (transfer self))) = Inr (f, b, p0)"
    by auto
  from calc_gm_Inr [OF g] have n: "length p0 = (if reverse self then 2 else 1)"
    by (auto split: if_splits)
  from calc_gms_loop_frame [OF l] have t: "transfers s = transfers self"
    using s by simp
  have "gm_peaks s = Some p0" "peak_gm s = Some (map snd p0)"
    using s p0 by simp_all
  then show ?thesis
    using g t n by (auto simp: thresh_def thresh_pairs_def)
qed

lemma two_curve_device_gms:
  "fst (calc_gms demo_extern two_curve_device) = None"
  by (simp add: calc_gms_def two_curve_device_def rising_curve_def falling_curve_def
      oect_calc_gm_def oect_init_def get_gm_def demo_extern_def
      demo_gm_deriv_def leg_peak_def np_max_def np_argmax_def upt_conv_Cons)

lemma two_curve_device_last:
  "oect_calc_gm demo_extern two_curve_device (snd (last (transfer two_curve_device))) =
     Inr ([(0, - 1), (1, - 3), (2, - 3)], [], [(0, - 1)])"
  by (simp add: two_curve_device_def rising_curve_def falling_curve_def
      oect_calc_gm_def oect_init_def get_gm_def demo_extern_def
      demo_gm_deriv_def leg_peak_def np_max_def np_argmax_def upt_conv_Cons)

lemma two_curve_device_first:
  "oect_calc_gm demo_extern two_curve_device rising_curve =
     Inr ([(0, 1), (1, 3), (2, 3)], [], [(1, 3)])"
  by (simp add: two_curve_device_def rising_curve_def falling_curve_def
      oect_calc_gm_def oect_init_def get_gm_def demo_extern_def
      demo_gm_deriv_def leg_peak_def np_max_def np_argmax_def upt_conv_Cons)

theorem gm_peaks_of_last_curve_witness:
  "gm_peaks (snd (calc_gms demo_extern two_curve_device)) = Some [(0, - 1)] \<and>
   peak_gm (snd (calc_gms demo_extern two_curve_device)) = Some [- 1] \<and>
   thresh_pairs (snd (calc_gms demo_extern two_curve_device)) [(0, - 1)] =
     [((''-0.6_0_01'', [0, 1, 4]), 0)] \<and>
   oect_calc_gm demo_extern two_curve_device rising_curve =
     Inr ([(0, 1), (1, 3), (2, 3)], [], [(1, 3)])"
proof -
  have h: "calc_gms demo_extern two_curve_device =
             (None, snd (calc_gms demo_extern two_curve_device))"
    using two_curve_device_gms by (metis prod.collapse)
  have n: "transfer two_curve_device \<noteq> []"
    by (simp add: two_curve_device_def)
  from gm_peaks_of_last_curve [OF h n] two_curve_device_last
  have "gm_peaks (snd (calc_gms demo_extern two_curve_device)) = Some [(0, - 1)]"
    and "peak_gm (snd (calc_gms demo_extern two_curve_device)) = Some [- 1]"
    and "thresh_pairs (snd (calc_gms demo_extern two_curve_device)) [(0, - 1)] =
           zip (fcolumns (transfers two_curve_device)) (map fst [(0, - 1 :: real)])"
    by auto
  then show ?thesis
    using two_curve_device_first by (simp add: two_curve_device_def)
qed

text \<open>
  Claim C10 as stated fails in its last part: not every transfer curve is paired. The
  device has two transfer curves and two columns in its table; the stored record has the
  one peak of the second curve, and the only pair is the first column with that peak's
  voltage. The second column is not passed over at all.
\<close>

theorem thresh_pairs_counterexample:
  "length (transfer two_curve_device) = 2 \<and>
   length (fcolumns (transfers (snd (calc_gms demo_extern two_curve_device)))) = 2 \<and>
   gm_peaks (snd (calc_gms demo_extern two_curve_device)) = Some [(0, - 1)] \<and>
   thresh_pairs (snd (calc_gms demo_extern two_curve_device)) [(0, - 1)] =
     [((''-0.6_0_01'', [0, 1, 4]), 0)]"
  by (simp add: calc_gms_def two_curve_device_def rising_curve_def falling_curve_def
      oect_calc_gm_def oect_init_def get_gm_def demo_extern_def thresh_pairs_def
      demo_gm_deriv_def leg_peak_def np_max_def np_argmax_def upt_conv_Cons)

section \<open>The model run on the example curves\<close>

text \<open>Evaluations shared by the closed examples: the grid, the second derivative, the
  peak search and the fit on the falling square-root current, and on the curve without
  current.\<close>

lemma sqrt_squares: "sqrt 9 = 3" "sqrt 4 = 2"
  by (rule real_sqrt_unique; simp)+

lemma demo_extern_sel:
  "gm_deriv demo_extern = demo_gm_deriv"
  "UnivariateSpline demo_extern = demo_spline"
  "find_peaks_cwt demo_extern = demo_peaks"
  "curve_fit demo_extern = demo_fit"
  "gms_table demo_extern = (\<lambda>f b. None)"
  by (simp_all add: demo_extern_def)

lemma demo_grid:
  "np_arange (- (1 / 20)) 0 (1 / 200) =
     [- (1 / 20), - (9 / 200), - (1 / 25), - (7 / 200), - (3 / 100),
       - (1 / 40), - (1 / 50), - (3 / 200), - (1 / 100), - (1 / 200)]"
  by (simp add: np_arange_def upt_conv_Cons)

lemma demo_d2:
  "second_derivative demo_extern [3000, 2000, 1000, 0, 0, 0] demo_V =
     Inr ([- (1 / 20), - (9 / 200), - (1 / 25), - (7 / 200), - (3 / 100),
       - (1 / 40), - (1 / 50), - (3 / 200), - (1 / 100), - (1 / 200)],
      [0, 0, 0, 0, 0, 125, 250, 125, 0, 0])"
  by (simp add: second_derivative_def demo_extern_sel demo_spline_def demo_V_def demo_grid
      np_gradient_def upt_conv_Cons Let_def)

lemma demo_search: "searchsorted demo_V (Fin (- (1 / 50))) = 3"
  by (simp add: searchsorted_def demo_V_def bsearch_left.simps)

lemma demo_find_peak:
  "oect_find_peak demo_extern [3000, 2000, 1000, 0, 0, 0] demo_V 15 = Inr [3]"
  by (simp add: oect_find_peak_def demo_d2 demo_extern_sel demo_peaks_def edge_filter_def
      upt_conv_Cons demo_search)


lemma demo_candidates:
  "peak_candidates demo_extern [3, 2, 1, 0, 0, 0] demo_V = Inr [3]"
  by (simp add: peak_candidates_def find_peak_default_width_def demo_find_peak)

lemma demo_fit_first_three:
  "demo_fit [- (1 / 20), - (1 / 25), - (3 / 100)] [3, 2, 1] fit_bounds = Inr (- 100, - 2)"
  by (simp add: demo_fit_def fit_bounds_def clamp_def)

lemma demo_min_fit_loop:
  "min_fit_loop demo_extern [3, 2, 1, 0, 0, 0] demo_V [3] [] [] = Inr ([(- 100, - 2)], [0])"
  by (simp add: demo_extern_sel demo_V_def demo_fit_first_three np_div_def line_f_def
      searchsorted_def bsearch_left.simps)

lemma demo_min_fit_core_III:
  "min_fit_core demo_extern QIII [3, 2, 1, 0, 0, 0] demo_V = Inr (- 100, - 2)"
  by (simp add: min_fit_core_def demo_candidates demo_min_fit_loop np_argmin_def Let_def
      del: min_fit_loop.simps)

lemma demo_V_mirror: "rev (map uminus (rev (map uminus demo_V))) = demo_V"
  by (simp add: demo_V_def)

lemma demo_min_fit_core_I:
  "min_fit_core demo_extern QI [0, 0, 0, 1, 2, 3] (rev (map uminus demo_V)) = Inr (100, - 2)"
  by (simp add: min_fit_core_def demo_V_mirror demo_candidates demo_min_fit_loop np_argmin_def
      Let_def del: min_fit_loop.simps)

lemma zero_d2:
  "second_derivative demo_extern [0, 0, 0, 0, 0, 0] demo_V =
     Inr ([- (1 / 20), - (9 / 200), - (1 / 25), - (7 / 200), - (3 / 100),
       - (1 / 40), - (1 / 50), - (3 / 200), - (1 / 100), - (1 / 200)],
      [0, 0, 0, 0, 0, 0, 0, 0, 0, 0])"
  by (simp add: second_derivative_def demo_extern_sel demo_spline_def demo_V_def demo_grid
      np_gradient_def upt_conv_Cons Let_def)

lemma zero_find_peak:
  "oect_find_peak demo_extern [0, 0, 0, 0, 0, 0] demo_V 15 = Inr []"
  by (simp add: oect_find_peak_def zero_d2 demo_extern_sel demo_peaks_def edge_filter_def
      upt_conv_Cons)

lemma zero_min_fit_core:
  "min_fit_core demo_extern QIII [0, 0, 0, 0, 0, 0] demo_V = Inl IndexError"
  by (simp add: min_fit_core_def peak_candidates_def find_peak_default_width_def zero_find_peak)

lemma clamp_within:
  "bound_pair_ok lo hi \<Longrightarrow> lower_ok lo (clamp lo hi x) \<and> upper_ok hi (clamp lo hi x)"
  by (cases lo; cases hi) (auto simp: clamp_def)

lemma demo_respects_bounds: "respects_bounds demo_extern"
  unfolding respects_bounds_def demo_extern_sel
proof (intro allI impI)
  fix x y :: "real list" and b :: bounds and p :: "real \<times> real"
  assume a: "demo_fit x y b = Inr p"
  obtain l0 l1 u0 u1 where b: "b = ((l0, l1), (u0, u1))"
    by (metis prod.collapse)
  from a b have ok: "bound_pair_ok l0 u0" "bound_pair_ok l1 u1"
    by (auto simp: demo_fit_def Let_def split: if_splits)
  from a b obtain c0 c1 where "p = (clamp l0 u0 c0, clamp l1 u1 c1)"
    by (auto simp: demo_fit_def Let_def split: if_splits)
  then show "within_bounds b p"
    using clamp_within [OF ok(1)] clamp_within [OF ok(2)] b by (simp add: within_bounds_def)
qed

lemma negative_peak_min_fit:
  "oect_min_fit demo_extern negative_peak_device [3, 2, 1, 0, 0, 0] demo_V =
     (Inr (- 100, - 2), negative_peak_device\<lparr> quad := Some QIII \<rparr>)"
proof -
  have "quadrant negative_peak_device = (None, negative_peak_device\<lparr> quad := Some QIII \<rparr>)"
    by (simp add: quadrant_def negative_peak_device_def)
  moreover have "length demo_V = 6" "demo_V ! 2 = - 3 / 100" "demo_V ! 1 = - 4 / 100"
    by (simp_all add: demo_V_def)
  ultimately show ?thesis
    by (simp add: oect_min_fit_def demo_min_fit_core_III)
qed

lemma positive_peak_min_fit:
  "oect_min_fit demo_extern positive_peak_device [0, 0, 0, 1, 2, 3] demo_V_pos =
     (Inr (100, - 2), positive_peak_device\<lparr> quad := Some QI \<rparr>)"
proof -
  have "quadrant positive_peak_device = (None, positive_peak_device\<lparr> quad := Some QI \<rparr>)"
    by (simp add: quadrant_def positive_peak_device_def)
  moreover have "length demo_V_pos = 6" "demo_V_pos ! 2 = 2 / 100" "demo_V_pos ! 1 = 1 / 100"
    by (simp_all add: demo_V_pos_def)
  moreover have "demo_V_pos = rev (map uminus demo_V)"
    by (simp add: demo_V_pos_def demo_V_def)
  ultimately show ?thesis
    using demo_min_fit_core_I by (simp add: oect_min_fit_def)
qed

section \<open>The peak search: its second attempt and its edge filter\<close>

text \<open>
  Claim C5. For every behaviour of the library and every curve: the second search of
  lines 716-717 is made with the default width of \<^verbatim>\<open>_find_peak\<close>, which is \<open>15\<close>, the width
  of the first search; it is not made with a wider one. It is therefore the first search
  again, and the candidates are always those of the first search. On the curve without
  current both searches find nothing, the candidate list is empty and \<^verbatim>\<open>_min_fit\<close> raises
  \<^verbatim>\<open>IndexError\<close>.
\<close>

theorem retry_passes_default_width:
  "find_peak_default_width = 15 \<and>
   peak_candidates ext I_d V =
     bind_e (oect_find_peak ext (map (\<lambda>x. x * 1000) I_d) V find_peak_default_width)
       (\<lambda>mx_d2. if mx_d2 = []
                then oect_find_peak ext (map (\<lambda>x. x * 1000) I_d) V find_peak_default_width
                else Inr mx_d2) \<and>
   peak_candidates ext I_d V =
     oect_find_peak ext (map (\<lambda>x. x * 1000) I_d) V find_peak_default_width \<and>
   oect_find_peak demo_extern (map (\<lambda>x. x * 1000) zero_I) demo_V find_peak_default_width = Inr [] \<and>
   peak_candidates demo_extern zero_I demo_V = Inr [] \<and>
   min_fit_core demo_extern QIII zero_I demo_V = Inl IndexError"
proof -
  have w: "find_peak_default_width = 15"
    by (simp add: find_peak_default_width_def)
  have r: "peak_candidates ext I_d V =
     bind_e (oect_find_peak ext (map (\<lambda>x. x * 1000) I_d) V find_peak_default_width)
       (\<lambda>mx_d2. if mx_d2 = []
                then oect_find_peak ext (map (\<lambda>x. x * 1000) I_d) V find_peak_default_width
                else Inr mx_d2)"
    unfolding peak_candidates_def w ..
  have s: "peak_candidates ext I_d V =
     oect_find_peak ext (map (\<lambda>x. x * 1000) I_d) V find_peak_default_width"
  proof (cases "oect_find_peak ext (map (\<lambda>x. x * 1000) I_d) V find_peak_default_width")
    case (Inl e)
    then show ?thesis by (simp add: r)
  next
    case (Inr mx_d2)
    then show ?thesis by (cases "mx_d2 = []") (simp_all add: r)
  qed
  have z: "oect_find_peak demo_extern (map (\<lambda>x. x * 1000) zero_I) demo_V find_peak_default_width
             = Inr []"
    using zero_find_peak by (simp add: w zero_I_def)
  have c: "peak_candidates demo_extern zero_I demo_V = Inr []"
    using zero_find_peak by (simp add: peak_candidates_def w zero_I_def)
  have m: "min_fit_core demo_extern QIII zero_I demo_V = Inl IndexError"
    using zero_min_fit_core by (simp add: zero_I_def)
  show ?thesis
    using w r s z c m by blast
qed

text \<open>
  Claim C6, as amended. Of the peaks found on the resampled second derivative,
  \<^verbatim>\<open>_find_peak\<close> keeps exactly those at an index greater than \<open>5\<close>, that is, more than five
  samples from the start of the array, and returns their positions in the voltage array.
  The distance of a peak from the end of the array plays no part.
\<close>

theorem find_peak_keeps_peaks_above_five:
  assumes "second_derivative ext I V = Inr (V_spl, d2)"
    and "find_peaks_cwt ext d2 [1 ..< width] = Inr found"
    and "list_all (\<lambda>p. p < length V_spl) found"
  shows "oect_find_peak ext I V width =
           Inr (map (\<lambda>p. searchsorted V (Fin (V_spl ! p))) (filter (\<lambda>p. 5 < p) found)) \<and>
         set (edge_filter found) = {p \<in> set found. 5 < p}"
proof -
  have "list_all (\<lambda>p. p < length V_spl) (edge_filter found)"
    using assms(3) by (simp add: edge_filter_def list_all_iff)
  then show ?thesis
    using assms(1,2) by (auto simp: oect_find_peak_def edge_filter_def)
qed

theorem find_peak_keeps_peaks_above_five_witness:
  "oect_find_peak demo_extern [3000, 2000, 1000, 0, 0, 0] demo_V 15 =
     Inr (map (\<lambda>p. searchsorted demo_V
                 (Fin ([- (1 / 20), - (9 / 200), - (1 / 25), - (7 / 200), - (3 / 100),
                        - (1 / 40), - (1 / 50), - (3 / 200), - (1 / 100), - (1 / 200)] ! p)))
            (filter (\<lambda>p. 5 < p) [6])) \<and>
   set (edge_filter [6]) = {p \<in> set [6]. 5 < p}"
proof -
  have f: "find_peaks_cwt demo_extern [0, 0, 0, 0, 0, 125, 250, 125, 0, 0] [1 ..< 15] = Inr [6]"
    by (simp add: demo_extern_sel demo_peaks_def upt_conv_Cons)
  have l: "list_all (\<lambda>p. p < length [- (1 / 20), - (9 / 200), - (1 / 25), - (7 / 200), - (3 / 100),
                        - (1 / 40), - (1 / 50), - (3 / 200), - (1 / 100), - (1 / 200 :: real)]) [6]"
    by simp
  show ?thesis
    by (rule find_peak_keeps_peaks_above_five [OF demo_d2 f l])
qed

text \<open>
  Claim C6 as the specification states it fails at the end of the array. The second
  derivative of the example has ten samples and its peak is at index \<open>6\<close>, three samples
  from the last index; the peak is kept and returned (as position \<open>3\<close> of the voltages).
\<close>

theorem end_boundary_counterexample:
  "second_derivative demo_extern [3000, 2000, 1000, 0, 0, 0] demo_V =
     Inr ([- (1 / 20), - (9 / 200), - (1 / 25), - (7 / 200), - (3 / 100),
           - (1 / 40), - (1 / 50), - (3 / 200), - (1 / 100), - (1 / 200)],
          [0, 0, 0, 0, 0, 125, 250, 125, 0, 0]) \<and>
   find_peaks_cwt demo_extern [0, 0, 0, 0, 0, 125, 250, 125, 0, 0] [1 ..< 15] = Inr [6] \<and>
   edge_filter [6] = [6] \<and>
   length [0, 0, 0, 0, 0, 125, 250, 125, 0, 0 :: real] - 1 - 6 = 3 \<and>
   oect_find_peak demo_extern [3000, 2000, 1000, 0, 0, 0] demo_V 15 = Inr [3]"
  using demo_d2 demo_find_peak
  by (simp add: demo_extern_sel demo_peaks_def upt_conv_Cons edge_filter_def)

section \<open>The sign of the fitted slope\<close>

lemma min_fit_loop_bounds:
  assumes "respects_bounds ext"
  shows "min_fit_loop ext I_d V ms fits res = Inr (fits', res') \<Longrightarrow>
         list_all (within_bounds fit_bounds) fits \<Longrightarrow> length fits = length res \<Longrightarrow>
         list_all (within_bounds fit_bounds) fits' \<and> length fits' = length res'"
proof (induction ms arbitrary: fits res)
  case Nil
  then show ?case by simp
next
  case (Cons m ms)
  show ?case
  proof (cases "curve_fit ext (take m V) (take m I_d) fit_bounds")
    case (Inl e)
    then show ?thesis using Cons.prems(1) by simp
  next
    case (Inr p)
    obtain f0 f1 where p: "p = (f0, f1)" by (cases p)
    have w: "within_bounds fit_bounds (f0, f1)"
      using assms Inr p unfolding respects_bounds_def by blast
    define r where "r = sum_list (map (\<lambda>(y, x). (y - line_f x f0 f1)\<^sup>2)
        (zip (take (searchsorted V (np_div (- f1) f0)) I_d)
             (take (searchsorted V (np_div (- f1) f0)) V)))"
    have "min_fit_loop ext I_d V ms (fits @ [(f0, f1)]) (res @ [r]) = Inr (fits', res')"
      using Cons.prems(1) Inr p by (simp add: r_def Let_def)
    moreover have "list_all (within_bounds fit_bounds) (fits @ [(f0, f1)])"
      using Cons.prems(2) w by simp
    moreover have "length (fits @ [(f0, f1)]) = length (res @ [r])"
      using Cons.prems(3) by simp
    ultimately show ?thesis
      by (rule Cons.IH)
  qed
qed

lemma min_fit_core_sign:
  assumes "respects_bounds ext" and "min_fit_core ext q I_d V = Inr (f0, f1)"
  shows "if q = QI then 0 \<le> f0 else f0 \<le> 0"
proof -
  define Ids where "Ids = (if q = QI then rev I_d else I_d)"
  define Vs where "Vs = (if q = QI then rev (map uminus V) else V)"
  from assms(2) obtain mx_d2 fits res a where
    l: "min_fit_loop ext Ids Vs mx_d2 [] [] = Inr (fits, res)"
    and n: "fits \<noteq> []" and a: "np_argmin res = Inr a"
    and r: "(if q = QI then Inr (- fst (fits ! a), snd (fits ! a)) else Inr (fits ! a)) = Inr (f0, f1)"
    by (auto simp: min_fit_core_def Let_def Ids_def Vs_def dest!: bind_e_Inr split: if_splits)
  from min_fit_loop_bounds [OF assms(1) l] have b: "list_all (within_bounds fit_bounds) fits"
    and len: "length fits = length res"
    by simp_all
  from np_argmin_first [OF a] len have "a < length fits" by simp
  with b have "within_bounds fit_bounds (fits ! a)"
    by (simp add: list_all_length)
  then have "fst (fits ! a) \<le> 0"
    by (simp add: within_bounds_def fit_bounds_def)
  then show ?thesis
    using r by (auto split: if_splits)
qed

text \<open>
  Claim C2, as amended. Assume the fit returns parameters inside the bounds it is given.
  The only finite bound \<^verbatim>\<open>_min_fit\<close> passes is the upper bound \<open>0\<close> on the slope \<open>f0\<close>, and
  for quadrant I the sign of the slope is flipped before the fit is returned. So every
  fit \<^verbatim>\<open>_min_fit\<close> returns has a slope \<open>\<le> 0\<close> in quadrant III and a slope \<open>\<ge> 0\<close> in quadrant
  I. Nothing is stated for the intercept, which is not bounded.
\<close>

theorem min_fit_slope_sign:
  assumes "respects_bounds ext" and "oect_min_fit ext self I_d V = (Inr (f0, f1), s)"
  shows "quad s = Some QIII \<and> f0 \<le> 0 \<or> quad s = Some QI \<and> 0 \<le> f0"
proof -
  from assms(2) obtain q where q: "quad s = Some q"
    and c: "\<exists>I1 V1. min_fit_core ext q I1 V1 = Inr (f0, f1)"
    by (auto simp: oect_min_fit_def Let_def split: if_splits option.splits prod.splits)
  from c obtain I1 V1 where "min_fit_core ext q I1 V1 = Inr (f0, f1)" by blast
  from min_fit_core_sign [OF assms(1) this] show ?thesis
    using q by (cases q) simp_all
qed

theorem min_fit_slope_sign_witness:
  "respects_bounds demo_extern \<and>
   oect_min_fit demo_extern negative_peak_device [3, 2, 1, 0, 0, 0] demo_V =
     (Inr (- 100, - 2), negative_peak_device\<lparr> quad := Some QIII \<rparr>) \<and>
   quad (negative_peak_device\<lparr> quad := Some QIII \<rparr>) = Some QIII \<and> (- 100 :: real) \<le> 0 \<and>
   oect_min_fit demo_extern positive_peak_device [0, 0, 0, 1, 2, 3] demo_V_pos =
     (Inr (100, - 2), positive_peak_device\<lparr> quad := Some QI \<rparr>) \<and>
   quad (positive_peak_device\<lparr> quad := Some QI \<rparr>) = Some QI \<and> (0 :: real) \<le> 100"
  using min_fit_slope_sign [OF demo_respects_bounds negative_peak_min_fit]
    min_fit_slope_sign [OF demo_respects_bounds positive_peak_min_fit]
    demo_respects_bounds negative_peak_min_fit positive_peak_min_fit
  by simp

text \<open>
  Claim C2 as the specification states it fails. For the square-root current \<open>3, 2, 1, 0, 0, 0\<close>
  over the voltages \<open>-0.05 \<dots> 0\<close> (threshold at \<open>-0.02\<close>) the selected fit is the line
  \<open>-100 x - 2\<close>: its intercept is negative. For the mirrored curve of a device in quadrant I
  the fit returned is \<open>(100, -2)\<close>: the slope is positive and the intercept negative.
\<close>

theorem fit_sign_counterexample:
  "oect_min_fit demo_extern negative_peak_device [3, 2, 1, 0, 0, 0] demo_V =
     (Inr (- 100, - 2), negative_peak_device\<lparr> quad := Some QIII \<rparr>) \<and>
   (- 2 :: real) < 0 \<and>
   oect_min_fit demo_extern positive_peak_device [0, 0, 0, 1, 2, 3] demo_V_pos =
     (Inr (100, - 2), positive_peak_device\<lparr> quad := Some QI \<rparr>) \<and>
   (0 :: real) < 100"
  using negative_peak_min_fit positive_peak_min_fit by simp

section \<open>A failing curve in the threshold loop\<close>

lemma curve_fit_step_state:
  assumes "curve_fit_step ext s col v = (r, s')"
  shows "\<exists>q. s' = s\<lparr> quad := q \<rparr>"
proof (cases "np_min (map (\<lambda>x. sqrt \<bar>x\<bar>) col)")
  case (Inl e)
  then show ?thesis
    using assms by (auto simp: curve_fit_step_def quad_update_self)
next
  case (Inr lowest)
  then have "oect_min_fit ext s (map (\<lambda>x. x - lowest) (map (\<lambda>x. sqrt \<bar>x\<bar>) col)) v = (r, s')"
    using assms by (simp add: curve_fit_step_def)
  then show ?thesis by (rule min_fit_state)
qed

lemma thresh_loop_failure:
  assumes "\<forall>q. \<exists>e. fst (curve_fit_step ext (self\<lparr> quad := q \<rparr>) col v) = Inl e"
  shows "((tf, col), p) \<in> set pairs \<Longrightarrow>
         \<exists>e q. thresh_loop ext (self\<lparr> quad := q0 \<rparr>) v pairs vts vgvts = (Inl e, self\<lparr> quad := q \<rparr>)"
proof (induction pairs arbitrary: q0 vts vgvts)
  case Nil
  then show ?case by simp
next
  case (Cons c pairs)
  obtain tf' col' p' where c: "c = ((tf', col'), p')"
    by (metis prod.collapse)
  obtain r s1 where st: "curve_fit_step ext (self\<lparr> quad := q0 \<rparr>) col' v = (r, s1)"
    by (cases "curve_fit_step ext (self\<lparr> quad := q0 \<rparr>) col' v")
  from curve_fit_step_state [OF st] obtain q1 where s1: "s1 = self\<lparr> quad := q1 \<rparr>"
    by auto
  show ?case
  proof (cases r)
    case (Inl e)
    then show ?thesis
      using c st s1 by auto
  next
    case (Inr fit)
    obtain f0 f1 where fit: "fit = (f0, f1)" by (cases fit)
    have "col' \<noteq> col"
    proof
      assume "col' = col"
      with assms obtain e where "fst (curve_fit_step ext (self\<lparr> quad := q0 \<rparr>) col' v) = Inl e"
        by blast
      with st Inr show False by simp
    qed
    with Cons.prems c have "((tf, col), p) \<in> set pairs" by auto
    from Cons.IH [OF this, of q1] show ?thesis
      using c st s1 Inr fit by simp
  qed
qed

text \<open>
  Claim C3, as amended. \<^verbatim>\<open>thresh\<close> has no handler: if the fit of one of the paired transfer
  curves raises (whatever quadrant is stored at that moment), \<^verbatim>\<open>thresh\<close> ends with an
  exception, and the object is as before except possibly for \<open>quad\<close>. In particular no
  threshold array is stored: \<^verbatim>\<open>Vts\<close>, \<^verbatim>\<open>Vt\<close>, \<^verbatim>\<open>VgVts\<close> and \<^verbatim>\<open>VgVt\<close> keep their values, and the
  fits of the curves before the failing one are lost.
\<close>

theorem thresh_failure_aborts:
  assumes "gm_peaks self = Some pk"
    and "((tf, col), p) \<in> set (thresh_pairs self pk)"
    and "\<forall>q. \<exists>e. fst (curve_fit_step ext (self\<lparr> quad := q \<rparr>) col (findex (transfers self))) = Inl e"
  shows "\<exists>e q. thresh ext self = (Some e, self\<lparr> quad := q \<rparr>) \<and>
           Vts (snd (thresh ext self)) = Vts self \<and> Vt (snd (thresh ext self)) = Vt self \<and>
           VgVts (snd (thresh ext self)) = VgVts self \<and> VgVt (snd (thresh ext self)) = VgVt self"
proof -
  have "self = self\<lparr> quad := quad self \<rparr>" by simp
  with thresh_loop_failure [OF assms(3) assms(2), of "quad self" "[]" "[]"]
  obtain e q where "thresh_loop ext self (findex (transfers self)) (thresh_pairs self pk) [] [] =
      (Inl e, self\<lparr> quad := q \<rparr>)"
    by auto
  then have t: "thresh ext self = (Some e, self\<lparr> quad := q \<rparr>)"
    using assms(1) by (simp add: thresh_def)
  show ?thesis
    by (rule exI [of _ e], rule exI [of _ q]) (simp add: t)
qed

lemma zero_curve_fails:
  "fst (curve_fit_step demo_extern (zero_curve_device\<lparr> quad := q \<rparr>) zero_I
          (findex (transfers zero_curve_device))) = Inl IndexError"
proof -
  have "quadrant (zero_curve_device\<lparr> quad := q \<rparr>) =
          (None, zero_curve_device\<lparr> quad := Some QIII \<rparr>)"
    by (simp add: quadrant_def zero_curve_device_def)
  moreover have "length demo_V = 6" "demo_V ! 2 = - 3 / 100" "demo_V ! 1 = - 4 / 100"
    by (simp_all add: demo_V_def)
  moreover have "findex (transfers zero_curve_device) = demo_V"
    by (simp add: zero_curve_device_def)
  ultimately show ?thesis
    by (simp add: curve_fit_step_def zero_I_def np_min_def oect_min_fit_def zero_min_fit_core)
qed

lemma demo_curve_fits:
  "curve_fit_step demo_extern zero_curve_device demo_I demo_V =
     (Inr (- 100, - 2), zero_curve_device\<lparr> quad := Some QIII \<rparr>)"
proof -
  have "quadrant zero_curve_device = (None, zero_curve_device\<lparr> quad := Some QIII \<rparr>)"
    by (simp add: quadrant_def zero_curve_device_def)
  moreover have "length demo_V = 6" "demo_V ! 2 = - 3 / 100" "demo_V ! 1 = - 4 / 100"
    by (simp_all add: demo_V_def)
  ultimately show ?thesis
    by (simp add: curve_fit_step_def demo_I_def sqrt_squares np_min_def oect_min_fit_def
        demo_min_fit_core_III)
qed

lemma zero_curve_thresh:
  "thresh demo_extern zero_curve_device =
     (Some IndexError, zero_curve_device\<lparr> quad := Some QIII \<rparr>)"
proof -
  have g: "gm_peaks zero_curve_device = Some [(- 4 / 100, 1), (- 3 / 100, 1)]"
    and t: "transfers zero_curve_device =
        \<lparr> findex = demo_V, fcolumns = [(''-0.6_0_01'', demo_I), (''-0.6_0_02'', zero_I)] \<rparr>"
    by (simp_all add: zero_curve_device_def)
  have z: "curve_fit_step demo_extern (zero_curve_device\<lparr> quad := Some QIII \<rparr>) zero_I demo_V =
      (Inl IndexError, zero_curve_device\<lparr> quad := Some QIII \<rparr>)"
  proof -
    have "quadrant (zero_curve_device\<lparr> quad := Some QIII \<rparr>) =
          (None, zero_curve_device\<lparr> quad := Some QIII \<rparr>)"
      by (simp add: quadrant_def zero_curve_device_def)
    moreover have "length demo_V = 6" "demo_V ! 2 = - 3 / 100" "demo_V ! 1 = - 4 / 100"
      by (simp_all add: demo_V_def)
    ultimately show ?thesis
      by (simp add: curve_fit_step_def zero_I_def np_min_def oect_min_fit_def zero_min_fit_core)
  qed
  show ?thesis
    by (simp add: thresh_def g t thresh_pairs_def demo_curve_fits z)
qed

theorem thresh_failure_aborts_witness:
  "thresh demo_extern zero_curve_device =
     (Some IndexError, zero_curve_device\<lparr> quad := Some QIII \<rparr>) \<and>
   Vts (snd (thresh demo_extern zero_curve_device)) = Vts zero_curve_device"
proof -
  have g: "gm_peaks zero_curve_device = Some [(- 4 / 100, 1), (- 3 / 100, 1)]"
    by (simp add: zero_curve_device_def)
  have m: "((''-0.6_0_02'', zero_I), - 3 / 100) \<in>
             set (thresh_pairs zero_curve_device [(- 4 / 100, 1), (- 3 / 100, 1)])"
    by (simp add: thresh_pairs_def zero_curve_device_def)
  have f: "\<forall>q. \<exists>e. fst (curve_fit_step demo_extern (zero_curve_device\<lparr> quad := q \<rparr>) zero_I
             (findex (transfers zero_curve_device))) = Inl e"
    using zero_curve_fails by blast
  from thresh_failure_aborts [OF g m f] zero_curve_thresh show ?thesis
    by simp
qed

text \<open>
  Claim C3 as the specification states it fails. The table has two columns; the fit of
  the first succeeds; the second has no current, its peak search finds nothing and
  \<^verbatim>\<open>_min_fit\<close> raises \<^verbatim>\<open>IndexError\<close>. \<^verbatim>\<open>thresh\<close> raises that error and \<^verbatim>\<open>Vts\<close> is still unset:
  there is no threshold array of length one.
\<close>

theorem thresh_partial_counterexample:
  "length (fcolumns (transfers zero_curve_device)) = 2 \<and>
   curve_fit_step demo_extern zero_curve_device demo_I demo_V =
     (Inr (- 100, - 2), zero_curve_device\<lparr> quad := Some QIII \<rparr>) \<and>
   thresh demo_extern zero_curve_device =
     (Some IndexError, zero_curve_device\<lparr> quad := Some QIII \<rparr>) \<and>
   Vts (zero_curve_device\<lparr> quad := Some QIII \<rparr>) = None"
  using demo_curve_fits zero_curve_thresh
  by (simp add: zero_curve_device_def oect_init_def)


end
